theory Spec2Isabelle
  imports Complex_Main
begin

section \<open>Data model of \<open>run_Roberta_model.py\<close>\<close>

text \<open>
  The driver is bookkeeping around an opaque deep-learning framework. Python floats
  (losses, accuracies, probabilities, timings) are modelled by rationals: every
  comparison and subtraction the driver performs is then exact. Progress messages
  printed to the console and the creation of missing output directories are left out;
  every file read and every file write is recorded, in order, in an I/O log.
\<close>

type_synonym path = string

datatype device = Device string

datatype loader = TrainLoader | DevLoader | TestLoader

text \<open>The dictionary handed to \<open>torch.save\<close> (lines 150-160), key by key.\<close>

record ('ms, 'os) checkpoint_record =
  ck_epoch :: int
  ck_model :: 'ms
  ck_optimizer :: 'os
  ck_best_score :: rat
  ck_epochs_count :: "int list"
  ck_train_losses :: "rat list"
  ck_train_accuracy :: "rat list"
  ck_valid_losses :: "rat list"
  ck_valid_accuracy :: "rat list"
  ck_valid_auc :: "rat list"

text \<open>A data frame is its columns in order; a CSV file is a header line and rows.\<close>

datatype cell = FloatCell rat | IntCell int

type_synonym frame = "(string \<times> cell list) list"

record csv =
  header :: "string list"
  rows :: "cell list list"

datatype ('ms, 'os) stored =
    CheckpointFile "('ms, 'os) checkpoint_record"
  | CsvFile csv

type_synonym ('ms, 'os) filesystem = "path \<rightharpoonup> ('ms, 'os) stored"

datatype error = FileNotFoundError path | UnpicklingError path

datatype ('ms, 'os) io =
    TorchLoad path "device option"
  | TorchSave path "('ms, 'os) checkpoint_record"
  | ToCsv path csv

text \<open>
  A Python local that may be unbound, hold a float or hold a list: the names
  \<open>train_accuracy\<close>, \<open>valid_accuracy\<close> and \<open>valid_auc\<close> of lines 111-116.
\<close>

datatype pyval = Unbound | FloatVal rat | ListVal "rat list"

text \<open>
  The collaborators imported from \<open>utils\<close>, \<open>torch\<close> and \<open>models\<close>, as parameters.
  The world \<open>'w\<close> is everything the framework owns: model parameters, optimizer and
  scheduler state, the shuffling generator. \<open>train\<close> takes the epoch and
  \<open>max_grad_norm\<close> and returns (time, loss, accuracy); \<open>validate\<close> and \<open>test\<close>
  return (time, loss or total time, accuracy, all_prob).
\<close>

record ('w, 'ms, 'os) framework =
  train :: "int \<Rightarrow> rat \<Rightarrow> 'w \<Rightarrow> (rat \<times> rat \<times> rat) \<times> 'w"
  validate :: "loader \<Rightarrow> 'w \<Rightarrow> (rat \<times> rat \<times> rat \<times> rat list) \<times> 'w"
  test :: "loader \<Rightarrow> 'w \<Rightarrow> (rat \<times> rat \<times> rat \<times> rat list) \<times> 'w"
  scheduler_step :: "rat \<Rightarrow> 'w \<Rightarrow> 'w"
  model_state_dict :: "'w \<Rightarrow> 'ms"
  optimizer_state_dict :: "'w \<Rightarrow> 'os"
  model_load_state_dict :: "'ms \<Rightarrow> 'w \<Rightarrow> 'w"
  optimizer_load_state_dict :: "'os \<Rightarrow> 'w \<Rightarrow> 'w"

text \<open>The keyword arguments of \<open>model_train_validate_test\<close> that the driver itself reads.\<close>

record params =
  target_dir :: path
  epochs :: int
  patience :: int
  max_grad_norm :: rat
  if_save_model :: bool
  checkpoint :: "path option"

text \<open>The local variables of \<open>model_train_validate_test\<close>, the world and the I/O log.\<close>

record ('w, 'ms, 'os) state =
  world :: 'w
  best_score :: rat
  start_epoch :: int
  epochs_count :: "int list"
  train_losses :: "rat list"
  train_accuracies :: "rat list"
  valid_losses :: "rat list"
  valid_accuracies :: "rat list"
  valid_aucs :: "rat list"
  train_accuracy :: pyval
  valid_accuracy :: pyval
  valid_auc :: pyval
  patience_counter :: int
  io_log :: "('ms, 'os) io list"

datatype loop_exit = Broke | Exhausted

section \<open>Paths, files and the prediction table\<close>

text \<open>\<open>os.path.join\<close> of two components on a POSIX system.\<close>

definition os_path_join :: "path \<Rightarrow> path \<Rightarrow> path" where
  "os_path_join a b =
     (if b \<noteq> [] \<and> hd b = CHR ''/'' then b
      else if a = [] \<or> last a = CHR ''/'' then a @ b
      else a @ ''/'' @ b)"

definition torch_load ::
  "('ms, 'os) filesystem \<Rightarrow> path \<Rightarrow> error + ('ms, 'os) checkpoint_record" where
  "torch_load fs p =
     (case fs p of
        None \<Rightarrow> Inl (FileNotFoundError p)
      | Some (CsvFile c) \<Rightarrow> Inl (UnpicklingError p)
      | Some (CheckpointFile ck) \<Rightarrow> Inr ck)"

text \<open>The row function of lines 170 and 216: \<open>0 if x['prob_0'] > x['prob_1'] else 1\<close>.\<close>

definition decide :: "rat \<Rightarrow> rat \<Rightarrow> int" where
  "decide prob_0 prob_1 = (if prob_0 > prob_1 then 0 else 1)"

text \<open>
  Lines 168-171 and 214-217: the frame is built from the column \<open>prob_1\<close>, gets the
  column \<open>prob_0 = 1 - prob_1\<close>, then the row-wise \<open>prediction\<close>, and is reordered
  to \<open>prob_0, prob_1, prediction\<close>.
\<close>

definition prediction_frame :: "rat list \<Rightarrow> frame" where
  "prediction_frame all_prob =
     (let prob_1 = all_prob;
          prob_0 = map (\<lambda>p. 1 - p) prob_1;
          prediction = map2 decide prob_0 prob_1
      in [(''prob_0'', map FloatCell prob_0),
          (''prob_1'', map FloatCell prob_1),
          (''prediction'', map IntCell prediction)])"

definition frame_len :: "frame \<Rightarrow> nat" where
  "frame_len df = (case df of [] \<Rightarrow> 0 | (name, col) # rest \<Rightarrow> length col)"

text \<open>\<open>DataFrame.to_csv(path, index=...)\<close>: with \<open>index=True\<close> a leading unnamed column
  holds the row number; with \<open>index=False\<close> only the frame's own columns are written.\<close>

definition to_csv :: "bool \<Rightarrow> frame \<Rightarrow> csv" where
  "to_csv index df =
     (let body = map (\<lambda>i. map (\<lambda>(name, col). col ! i) df) [0..<frame_len df]
      in if index
         then \<lparr>header = [] # map fst df,
               rows = map (\<lambda>i. IntCell (int i) # body ! i) [0..<frame_len df]\<rparr>
         else \<lparr>header = map fst df, rows = body\<rparr>)"

section \<open>The training driver\<close>

text \<open>Lines 91-99: the variables before a checkpoint is looked at.\<close>

definition fresh :: "'w \<Rightarrow> ('w, 'ms, 'os) state" where
  "fresh w =
     \<lparr>world = w, best_score = 0, start_epoch = 1, epochs_count = [],
      train_losses = [], train_accuracies = [], valid_losses = [],
      valid_accuracies = [], valid_aucs = [],
      train_accuracy = Unbound, valid_accuracy = Unbound, valid_auc = Unbound,
      patience_counter = 0, io_log = []\<rparr>"

text \<open>
  Lines 102-114. \<open>if checkpoint:\<close> is false for \<open>None\<close> and for the empty string.
  The three accuracy histories of the checkpoint are bound to the names
  \<open>train_accuracy\<close>, \<open>valid_accuracy\<close> and \<open>valid_auc\<close>, as the source writes them.
\<close>

definition restore ::
  "('w, 'ms, 'os) framework \<Rightarrow> params \<Rightarrow> ('ms, 'os) filesystem \<Rightarrow>
   ('w, 'ms, 'os) state \<Rightarrow> error + ('w, 'ms, 'os) state" where
  "restore fw ps fs s =
     (case checkpoint ps of
        None \<Rightarrow> Inr s
      | Some p \<Rightarrow>
          if p = [] then Inr s
          else (case torch_load fs p of
                  Inl e \<Rightarrow> Inl e
                | Inr ck \<Rightarrow>
                    Inr (s\<lparr>io_log := io_log s @ [TorchLoad p None],
                           start_epoch := ck_epoch ck + 1,
                           best_score := ck_best_score ck,
                           world := optimizer_load_state_dict fw (ck_optimizer ck)
                                      (model_load_state_dict fw (ck_model ck) (world s)),
                           epochs_count := ck_epochs_count ck,
                           train_losses := ck_train_losses ck,
                           train_accuracy := ListVal (ck_train_accuracy ck),
                           valid_losses := ck_valid_losses ck,
                           valid_accuracy := ListVal (ck_valid_accuracy ck),
                           valid_auc := ListVal (ck_valid_auc ck)\<rparr>)))"

text \<open>Lines 116 and 122: the baseline validation pass and the counter's initial value.\<close>

definition baseline ::
  "('w, 'ms, 'os) framework \<Rightarrow> ('w, 'ms, 'os) state \<Rightarrow> ('w, 'ms, 'os) state" where
  "baseline fw s =
     (case validate fw DevLoader (world s) of
        ((tm, valid_loss, acc, probs), w) \<Rightarrow>
          s\<lparr>world := w, valid_accuracy := FloatVal acc, patience_counter := 0\<rparr>)"

text \<open>Lines 124-140: one training pass, one validation pass, the scheduler step.
  The second component is the local \<open>epoch_accuracy\<close> of line 133.\<close>

definition train_and_validate ::
  "('w, 'ms, 'os) framework \<Rightarrow> params \<Rightarrow> int \<Rightarrow> ('w, 'ms, 'os) state \<Rightarrow>
   ('w, 'ms, 'os) state \<times> rat" where
  "train_and_validate fw ps epoch s =
     (case train fw epoch (max_grad_norm ps) (world s) of
        ((tm, tloss, tacc), w1) \<Rightarrow>
          (case validate fw DevLoader w1 of
             ((tm', vloss, vacc, probs), w2) \<Rightarrow>
               (s\<lparr>epochs_count := epochs_count s @ [epoch],
                   train_losses := train_losses s @ [tloss],
                   train_accuracies := train_accuracies s @ [tacc],
                   valid_losses := valid_losses s @ [vloss],
                   valid_accuracies := valid_accuracies s @ [vacc],
                   world := scheduler_step fw vacc w2\<rparr>, vacc)))"

text \<open>Lines 150-160: the dictionary that \<open>torch.save\<close> serialises.\<close>

definition checkpoint_dict ::
  "('w, 'ms, 'os) framework \<Rightarrow> int \<Rightarrow> ('w, 'ms, 'os) state \<Rightarrow>
   ('ms, 'os) checkpoint_record" where
  "checkpoint_dict fw epoch s =
     \<lparr>ck_epoch = epoch,
      ck_model = model_state_dict fw (world s),
      ck_optimizer = optimizer_state_dict fw (world s),
      ck_best_score = best_score s,
      ck_epochs_count = epochs_count s,
      ck_train_losses = train_losses s,
      ck_train_accuracy = train_accuracies s,
      ck_valid_losses = valid_losses s,
      ck_valid_accuracy = valid_accuracies s,
      ck_valid_auc = valid_aucs s\<rparr>"

text \<open>Lines 149-162: the checkpoint write, gated by \<open>if_save_model\<close>.\<close>

definition save_checkpoint ::
  "('w, 'ms, 'os) framework \<Rightarrow> params \<Rightarrow> int \<Rightarrow> ('w, 'ms, 'os) state \<Rightarrow>
   ('w, 'ms, 'os) state" where
  "save_checkpoint fw ps epoch s =
     (if if_save_model ps
      then s\<lparr>io_log := io_log s @
               [TorchSave (os_path_join (target_dir ps) ''best.pth.tar'')
                  (checkpoint_dict fw epoch s)]\<rparr>
      else s)"

text \<open>Lines 164-172: the pass over the test set and the export of its predictions.\<close>

definition export_test_prediction ::
  "('w, 'ms, 'os) framework \<Rightarrow> params \<Rightarrow> ('w, 'ms, 'os) state \<Rightarrow> ('w, 'ms, 'os) state" where
  "export_test_prediction fw ps s =
     (case validate fw TestLoader (world s) of
        ((tm, tloss, test_accuracy, all_prob), w) \<Rightarrow>
          s\<lparr>world := w,
            io_log := io_log s @
              [ToCsv (os_path_join (target_dir ps) ''test_prediction.csv'')
                 (to_csv False (prediction_frame all_prob))]\<rparr>)"

text \<open>Lines 124-172: the body of the epoch loop, up to the patience test.\<close>

definition epoch_body ::
  "('w, 'ms, 'os) framework \<Rightarrow> params \<Rightarrow> int \<Rightarrow> ('w, 'ms, 'os) state \<Rightarrow>
   ('w, 'ms, 'os) state" where
  "epoch_body fw ps epoch s =
     (case train_and_validate fw ps epoch s of
        (s1, epoch_accuracy) \<Rightarrow>
          if epoch_accuracy < best_score s1
          then s1\<lparr>patience_counter := patience_counter s1 + 1\<rparr>
          else export_test_prediction fw ps
                 (save_checkpoint fw ps epoch
                    (s1\<lparr>best_score := epoch_accuracy, patience_counter := 0\<rparr>)))"

text \<open>
  Lines 123-176: \<open>for epoch in range(start_epoch, epochs + 1)\<close> with its \<open>break\<close>.
  The loop returns the state after each iteration it ran, in order (the last one is
  the final state), and how it was left.
\<close>

fun epoch_loop ::
  "('w, 'ms, 'os) framework \<Rightarrow> params \<Rightarrow> int list \<Rightarrow> ('w, 'ms, 'os) state \<Rightarrow>
   ('w, 'ms, 'os) state list \<times> loop_exit" where
  "epoch_loop fw ps [] s = ([], Exhausted)"
| "epoch_loop fw ps (epoch # rest) s =
     (let s' = epoch_body fw ps epoch s
      in if patience_counter s' \<ge> patience ps then ([s'], Broke)
         else (case epoch_loop fw ps rest s' of (ss, ex) \<Rightarrow> (s' # ss, ex)))"

text \<open>
  \<open>model_train_validate_test\<close>: the result is the state on entry to the epoch loop,
  the states after each epoch, and the way the loop ended; or the error raised by
  \<open>torch.load\<close>.
\<close>

definition model_train_validate_test ::
  "('w, 'ms, 'os) framework \<Rightarrow> params \<Rightarrow> ('ms, 'os) filesystem \<Rightarrow> 'w \<Rightarrow>
   error + (('w, 'ms, 'os) state \<times> ('w, 'ms, 'os) state list \<times> loop_exit)" where
  "model_train_validate_test fw ps fs w =
     (case restore fw ps fs (fresh w) of
        Inl e \<Rightarrow> Inl e
      | Inr s \<Rightarrow>
          (let s0 = baseline fw s
           in Inr (s0, epoch_loop fw ps [start_epoch s0..epochs ps] s0)))"

section \<open>The inference driver\<close>

text \<open>Lines 65 and 193: both drivers fix the device to \<open>torch.device("cuda")\<close>.\<close>

definition training_device :: device where
  "training_device = Device ''cuda''"

definition inference_device :: device where
  "inference_device = Device ''cuda''"

text \<open>Lines 196-199: the \<open>map_location\<close> argument of \<open>torch.load\<close>; \<open>None\<close> is the
  direct load.\<close>

definition map_location :: "string \<Rightarrow> device option" where
  "map_location platform =
     (if platform = ''linux'' \<or> platform = ''linux2'' then None
      else Some inference_device)"

text \<open>\<open>model_load_test\<close>: the world after the test pass and the I/O performed.\<close>

definition model_load_test ::
  "('w, 'ms, 'os) framework \<Rightarrow> string \<Rightarrow> ('ms, 'os) filesystem \<Rightarrow>
   path \<Rightarrow> path \<Rightarrow> path \<Rightarrow> 'w \<Rightarrow> error + ('w \<times> ('ms, 'os) io list)" where
  "model_load_test fw platform fs tdir test_prediction_dir test_prediction_name w =
     (case torch_load fs (os_path_join tdir ''best.pth.tar'') of
        Inl e \<Rightarrow> Inl e
      | Inr ck \<Rightarrow>
          (case test fw TestLoader (model_load_state_dict fw (ck_model ck) w) of
             ((batch_time, total_time, accuracy, all_prob), w') \<Rightarrow>
               Inr (w',
                    [TorchLoad (os_path_join tdir ''best.pth.tar'') (map_location platform),
                     ToCsv (os_path_join test_prediction_dir test_prediction_name)
                       (to_csv False (prediction_frame all_prob))])))"

section \<open>The test set\<close>

text \<open>Modelled from the spec: a full pass over the test set produces per-example
  probabilities, one for each example of the test set. The functions \<open>validate\<close> and
  \<open>test\<close> of \<open>utils\<close> are not among the sources at hand; \<open>test_df\<close> is the frame of test
  examples that both drivers receive and from which they build the test loader, unshuffled
  (lines 59-60 and 202-203).\<close>

definition per_example_pass :: "('w, 'ms, 'os) framework \<Rightarrow> 'x list \<Rightarrow> bool" where
  "per_example_pass fw test_df \<longleftrightarrow>
     (\<forall>w. length (snd (snd (snd (fst (validate fw TestLoader w))))) = length test_df \<and>
          length (snd (snd (snd (fst (test fw TestLoader w))))) = length test_df)"

section \<open>Observing a run\<close>

text \<open>The checkpoints that a log writes, in order.\<close>

primrec saved_checkpoints :: "('ms, 'os) io list \<Rightarrow> ('ms, 'os) checkpoint_record list" where
  "saved_checkpoints [] = []"
| "saved_checkpoints (x # xs) =
     (case x of TorchSave p ck \<Rightarrow> ck # saved_checkpoints xs | _ \<Rightarrow> saved_checkpoints xs)"

text \<open>The I/O performed between an earlier state and a later one.\<close>

definition new_io :: "('w, 'ms, 'os) state \<Rightarrow> ('w, 'ms, 'os) state \<Rightarrow> ('ms, 'os) io list" where
  "new_io s s' = drop (length (io_log s)) (io_log s')"

text \<open>
  A concrete framework on which the driver can be evaluated. Its world is the list of
  validation accuracies that the coming passes over the dev set will report; every pass
  over the test set reports the given probabilities; training in epoch \<open>n\<close> reports the
  loss 1/4 and the accuracy \<open>n/10\<close>; a state dictionary is the number of accuracies left.
\<close>

definition scripted_framework :: "rat list \<Rightarrow> (rat list, nat, nat) framework" where
  "scripted_framework test_probs =
     \<lparr>train = (\<lambda>epoch g w. ((0, 1 / 4, of_int epoch / 10), w)),
      validate = (\<lambda>l w. case l of
                     TestLoader \<Rightarrow> ((0, 0, 0, test_probs), w)
                   | _ \<Rightarrow> (case w of [] \<Rightarrow> ((0, 0, 0, []), [])
                                   | a # q \<Rightarrow> ((0, 1 / 8, a, []), q))),
      test = (\<lambda>l w. ((0, 0, 0, test_probs), w)),
      scheduler_step = (\<lambda>a w. w),
      model_state_dict = length,
      optimizer_state_dict = length,
      model_load_state_dict = (\<lambda>m w. w),
      optimizer_load_state_dict = (\<lambda>m w. w)\<rparr>"

definition demo_params :: params where
  "demo_params =
     \<lparr>target_dir = ''out'', epochs = 3, patience = 2, max_grad_norm = 1,
      if_save_model = True, checkpoint = None\<rparr>"

text \<open>The table writes of a log, in order.\<close>

primrec csv_writes :: "('ms, 'os) io list \<Rightarrow> (path \<times> csv) list" where
  "csv_writes [] = []"
| "csv_writes (x # xs) =
     (case x of ToCsv p c \<Rightarrow> (p, c) # csv_writes xs | _ \<Rightarrow> csv_writes xs)"

text \<open>The probabilities of the four-example scenario and the table built from them.\<close>

definition demo_probs :: "rat list" where
  "demo_probs = [9 / 10, 1 / 5, 1 / 2, 51 / 100]"

definition demo_csv :: csv where
  "demo_csv = to_csv False (prediction_frame demo_probs)"

text \<open>A test set of four examples, each a label and a sentence, for this scenario.\<close>

definition demo_test_df :: "(int \<times> string) list" where
  "demo_test_df =
     [(1, ''profit rose''), (0, ''sales fell''), (1, ''the board met''), (1, ''orders grew'')]"

text \<open>
  A fresh run of three epochs: the baseline validation reports the accuracy 0, the
  epochs report 1/2, 2/5 and 3/5. The states on entry to the loop and after each epoch.
\<close>

definition demo_world :: "rat list" where
  "demo_world = [0, 1 / 2, 2 / 5, 3 / 5]"

definition demo_s0 :: "(rat list, nat, nat) state" where
  "demo_s0 = baseline (scripted_framework demo_probs) (fresh demo_world)"

definition demo_s1 :: "(rat list, nat, nat) state" where
  "demo_s1 = epoch_body (scripted_framework demo_probs) demo_params 1 demo_s0"

definition demo_s2 :: "(rat list, nat, nat) state" where
  "demo_s2 = epoch_body (scripted_framework demo_probs) demo_params 2 demo_s1"

definition demo_s3 :: "(rat list, nat, nat) state" where
  "demo_s3 = epoch_body (scripted_framework demo_probs) demo_params 3 demo_s2"

text \<open>The same run with \<open>if_save_model=False\<close>.\<close>

definition nosave_params :: params where
  "nosave_params = demo_params\<lparr>if_save_model := False\<rparr>"

definition nosave_s1 :: "(rat list, nat, nat) state" where
  "nosave_s1 = epoch_body (scripted_framework demo_probs) nosave_params 1 demo_s0"

definition nosave_s2 :: "(rat list, nat, nat) state" where
  "nosave_s2 = epoch_body (scripted_framework demo_probs) nosave_params 2 nosave_s1"

definition nosave_s3 :: "(rat list, nat, nat) state" where
  "nosave_s3 = epoch_body (scripted_framework demo_probs) nosave_params 3 nosave_s2"

text \<open>
  A run of up to five epochs with patience 2 whose accuracies are 1/2, 2/5, 1/5 and
  then 9/10: it stops after the third epoch.
\<close>

definition stop_params :: params where
  "stop_params = demo_params\<lparr>epochs := 5\<rparr>"

definition stop_world :: "rat list" where
  "stop_world = [0, 1 / 2, 2 / 5, 1 / 5, 9 / 10]"

definition stop_s0 :: "(rat list, nat, nat) state" where
  "stop_s0 = baseline (scripted_framework demo_probs) (fresh stop_world)"

definition stop_s1 :: "(rat list, nat, nat) state" where
  "stop_s1 = epoch_body (scripted_framework demo_probs) stop_params 1 stop_s0"

definition stop_s2 :: "(rat list, nat, nat) state" where
  "stop_s2 = epoch_body (scripted_framework demo_probs) stop_params 2 stop_s1"

definition stop_s3 :: "(rat list, nat, nat) state" where
  "stop_s3 = epoch_body (scripted_framework demo_probs) stop_params 3 stop_s2"

text \<open>The checkpoint that the first epoch of the fresh run writes, and a file system
  that holds it where the run wrote it.\<close>

definition demo_checkpoint :: "(nat, nat) checkpoint_record" where
  "demo_checkpoint =
     \<lparr>ck_epoch = 1, ck_model = 2, ck_optimizer = 2, ck_best_score = 1 / 2,
      ck_epochs_count = [1], ck_train_losses = [1 / 4], ck_train_accuracy = [1 / 10],
      ck_valid_losses = [1 / 8], ck_valid_accuracy = [1 / 2], ck_valid_auc = []\<rparr>"

definition demo_filesystem :: "(nat, nat) filesystem" where
  "demo_filesystem = [''out/best.pth.tar'' \<mapsto> CheckpointFile demo_checkpoint]"

text \<open>
  The run resumed from that checkpoint: the baseline validation reports 2/5, the
  epochs 2 and 3 report 3/5 and 7/10.
\<close>

definition resume_params :: params where
  "resume_params = demo_params\<lparr>checkpoint := Some ''out/best.pth.tar''\<rparr>"

definition resume_world :: "rat list" where
  "resume_world = [2 / 5, 3 / 5, 7 / 10]"

definition resume_s0 :: "(rat list, nat, nat) state" where
  "resume_s0 =
     baseline (scripted_framework demo_probs)
       (projr (restore (scripted_framework demo_probs) resume_params demo_filesystem
                 (fresh resume_world)))"

definition resume_s2 :: "(rat list, nat, nat) state" where
  "resume_s2 = epoch_body (scripted_framework demo_probs) resume_params 2 resume_s0"

definition resume_s3 :: "(rat list, nat, nat) state" where
  "resume_s3 = epoch_body (scripted_framework demo_probs) resume_params 3 resume_s2"

text \<open>Every table in the log of a training run is a prediction table, written under
  the fixed name and built from the probabilities that a pass over the test set returned.\<close>

definition csv_ok ::
  "('w, 'ms, 'os) framework \<Rightarrow> params \<Rightarrow> ('w, 'ms, 'os) state \<Rightarrow> bool" where
  "csv_ok fw ps s \<longleftrightarrow>
     (\<forall>p c. ToCsv p c \<in> set (io_log s) \<longrightarrow>
        p = os_path_join (target_dir ps) ''test_prediction.csv'' \<and>
        (\<exists>all_prob w tm l a w'.
           validate fw TestLoader w = ((tm, l, a, all_prob), w') \<and>
           c = to_csv False (prediction_frame all_prob)))"

section \<open>The prediction table\<close>

lemma header_prediction_csv:
  "header (to_csv False (prediction_frame all_prob)) = [''prob_0'', ''prob_1'', ''prediction'']"
  by (simp add: to_csv_def prediction_frame_def Let_def)

lemma rows_prediction_csv:
  "rows (to_csv False (prediction_frame all_prob)) =
     map (\<lambda>p. [FloatCell (1 - p), FloatCell p, IntCell (decide (1 - p) p)]) all_prob"
  by (rule nth_equalityI) (simp_all add: to_csv_def prediction_frame_def frame_len_def Let_def)

section \<open>One iteration of the epoch loop\<close>

lemma train_and_validate_fields:
  "train_and_validate fw ps e s = (s1, acc) \<Longrightarrow>
     best_score s1 = best_score s \<and> patience_counter s1 = patience_counter s \<and>
     io_log s1 = io_log s \<and> valid_aucs s1 = valid_aucs s \<and>
     valid_accuracies s1 = valid_accuracies s @ [acc] \<and>
     epochs_count s1 = epochs_count s @ [e] \<and> start_epoch s1 = start_epoch s"
  by (auto simp: train_and_validate_def split: prod.splits)

lemma save_checkpoint_fields:
  "best_score (save_checkpoint fw ps e s) = best_score s"
  "patience_counter (save_checkpoint fw ps e s) = patience_counter s"
  "valid_aucs (save_checkpoint fw ps e s) = valid_aucs s"
  "valid_accuracies (save_checkpoint fw ps e s) = valid_accuracies s"
  "epochs_count (save_checkpoint fw ps e s) = epochs_count s"
  "start_epoch (save_checkpoint fw ps e s) = start_epoch s"
  "world (save_checkpoint fw ps e s) = world s"
  by (simp_all add: save_checkpoint_def)

lemma export_fields:
  "best_score (export_test_prediction fw ps s) = best_score s"
  "patience_counter (export_test_prediction fw ps s) = patience_counter s"
  "valid_aucs (export_test_prediction fw ps s) = valid_aucs s"
  "valid_accuracies (export_test_prediction fw ps s) = valid_accuracies s"
  "epochs_count (export_test_prediction fw ps s) = epochs_count s"
  "start_epoch (export_test_prediction fw ps s) = start_epoch s"
  by (simp_all add: export_test_prediction_def split: prod.splits)

lemma export_io:
  "\<exists>tm l a all_prob.
     validate fw TestLoader (world s) = ((tm, l, a, all_prob), world (export_test_prediction fw ps s)) \<and>
     io_log (export_test_prediction fw ps s) = io_log s @
       [ToCsv (os_path_join (target_dir ps) ''test_prediction.csv'')
          (to_csv False (prediction_frame all_prob))]"
  by (cases "validate fw TestLoader (world s)") (auto simp: export_test_prediction_def)

lemma save_io:
  "\<exists>ck. ck_epoch ck = e \<and> ck_best_score ck = best_score s \<and> ck_valid_auc ck = valid_aucs s \<and>
     io_log (save_checkpoint fw ps e s) = io_log s @
       (if if_save_model ps then [TorchSave (os_path_join (target_dir ps) ''best.pth.tar'') ck] else [])"
  by (rule exI [of _ "checkpoint_dict fw e s"]) (simp add: save_checkpoint_def checkpoint_dict_def)

text \<open>What one iteration does, in terms of the accuracy it appends to the history.\<close>

lemma epoch_body_history:
  "\<exists>acc. valid_accuracies (epoch_body fw ps e s) = valid_accuracies s @ [acc]"
  by (auto simp: epoch_body_def save_checkpoint_fields export_fields
      dest!: train_and_validate_fields split: prod.splits)

lemma epoch_body_misc:
  "valid_aucs (epoch_body fw ps e s) = valid_aucs s"
  "epochs_count (epoch_body fw ps e s) = epochs_count s @ [e]"
  "start_epoch (epoch_body fw ps e s) = start_epoch s"
  by (auto simp: epoch_body_def save_checkpoint_fields export_fields
      dest!: train_and_validate_fields split: prod.splits)

lemma epoch_body_best_score:
  "best_score (epoch_body fw ps e s) =
     max (best_score s) (last (valid_accuracies (epoch_body fw ps e s)))"
  by (auto simp: epoch_body_def save_checkpoint_fields export_fields max_def
      dest!: train_and_validate_fields split: prod.splits)

lemma epoch_body_counter:
  "patience_counter (epoch_body fw ps e s) =
     (if last (valid_accuracies (epoch_body fw ps e s)) < best_score s
      then patience_counter s + 1 else 0)"
  by (auto simp: epoch_body_def save_checkpoint_fields export_fields
      dest!: train_and_validate_fields split: prod.splits)

lemma epoch_body_io_worse:
  "last (valid_accuracies (epoch_body fw ps e s)) < best_score s \<Longrightarrow>
     io_log (epoch_body fw ps e s) = io_log s"
  by (auto simp: epoch_body_def save_checkpoint_fields export_fields
      dest!: train_and_validate_fields split: prod.splits)

lemma epoch_body_io_better:
  assumes "\<not> last (valid_accuracies (epoch_body fw ps e s)) < best_score s"
  shows "\<exists>ck tm l a all_prob w.
     ck_epoch ck = e \<and> ck_best_score ck = best_score (epoch_body fw ps e s) \<and>
     ck_valid_auc ck = valid_aucs s \<and>
     validate fw TestLoader w = ((tm, l, a, all_prob), world (epoch_body fw ps e s)) \<and>
     io_log (epoch_body fw ps e s) = io_log s @
       (if if_save_model ps
        then [TorchSave (os_path_join (target_dir ps) ''best.pth.tar'') ck] else []) @
       [ToCsv (os_path_join (target_dir ps) ''test_prediction.csv'')
          (to_csv False (prediction_frame all_prob))]"
proof -
  obtain s1 acc where tv: "train_and_validate fw ps e s = (s1, acc)"
    by (cases "train_and_validate fw ps e s")
  note f = train_and_validate_fields [OF tv]
  let ?s2 = "s1\<lparr>best_score := acc, patience_counter := 0\<rparr>"
  let ?s3 = "save_checkpoint fw ps e ?s2"
  have nl: "\<not> acc < best_score s1"
  proof
    assume "acc < best_score s1"
    then have "epoch_body fw ps e s = s1\<lparr>patience_counter := patience_counter s1 + 1\<rparr>"
      by (simp add: epoch_body_def tv)
    with assms f \<open>acc < best_score s1\<close> show False by simp
  qed
  then have eb: "epoch_body fw ps e s = export_test_prediction fw ps ?s3"
    by (simp add: epoch_body_def tv)
  from save_io [of e ?s2 fw ps] obtain ck where ck:
    "ck_epoch ck = e" "ck_best_score ck = best_score ?s2" "ck_valid_auc ck = valid_aucs ?s2"
    "io_log ?s3 = io_log ?s2 @
       (if if_save_model ps then [TorchSave (os_path_join (target_dir ps) ''best.pth.tar'') ck] else [])"
    by blast
  from export_io [of fw ?s3 ps] obtain tm l a all_prob where ex:
    "validate fw TestLoader (world ?s3) = ((tm, l, a, all_prob), world (export_test_prediction fw ps ?s3))"
    "io_log (export_test_prediction fw ps ?s3) = io_log ?s3 @
       [ToCsv (os_path_join (target_dir ps) ''test_prediction.csv'')
          (to_csv False (prediction_frame all_prob))]"
    by blast
  have "ck_best_score ck = best_score (epoch_body fw ps e s)"
    using ck(2) by (simp add: eb export_fields save_checkpoint_fields)
  moreover have "ck_valid_auc ck = valid_aucs s"
    using ck(3) f by simp
  moreover have "io_log (epoch_body fw ps e s) = io_log s @
       (if if_save_model ps
        then [TorchSave (os_path_join (target_dir ps) ''best.pth.tar'') ck] else []) @
       [ToCsv (os_path_join (target_dir ps) ''test_prediction.csv'')
          (to_csv False (prediction_frame all_prob))]"
    using ex(2) ck(4) f by (simp add: eb)
  ultimately show ?thesis
    using ck(1) ex(1) eb by metis
qed

section \<open>The epoch loop as a sequence of iterations\<close>

lemma epoch_loop_nth:
  "epoch_loop fw ps es s = (ss, ex) \<Longrightarrow> i < length ss \<Longrightarrow>
     i < length es \<and> ss ! i = epoch_body fw ps (es ! i) ((s # ss) ! i)"
proof (induction es arbitrary: s ss ex i)
  case Nil
  then show ?case by simp
next
  case (Cons e es)
  let ?s' = "epoch_body fw ps e s"
  show ?case
  proof (cases "patience_counter ?s' \<ge> patience ps")
    case True
    with Cons.prems show ?thesis by (auto simp: Let_def)
  next
    case False
    obtain ss' ex' where r: "epoch_loop fw ps es ?s' = (ss', ex')"
      by (cases "epoch_loop fw ps es ?s'")
    with False Cons.prems have ss: "ss = ?s' # ss'" and "ex = ex'"
      by (auto simp: Let_def)
    show ?thesis
    proof (cases i)
      case 0
      then show ?thesis by (simp add: ss)
    next
      case (Suc k)
      with Cons.prems ss have "k < length ss'" by simp
      from Cons.IH [OF r this] show ?thesis by (simp add: ss Suc)
    qed
  qed
qed

lemma epoch_loop_not_before:
  "epoch_loop fw ps es s = (ss, ex) \<Longrightarrow> Suc i < length ss \<Longrightarrow>
     patience_counter (ss ! i) < patience ps"
proof (induction es arbitrary: s ss ex i)
  case Nil
  then show ?case by simp
next
  case (Cons e es)
  let ?s' = "epoch_body fw ps e s"
  show ?case
  proof (cases "patience_counter ?s' \<ge> patience ps")
    case True
    with Cons.prems show ?thesis by (auto simp: Let_def)
  next
    case False
    obtain ss' ex' where r: "epoch_loop fw ps es ?s' = (ss', ex')"
      by (cases "epoch_loop fw ps es ?s'")
    with False Cons.prems have ss: "ss = ?s' # ss'" and "ex = ex'"
      by (auto simp: Let_def)
    show ?thesis
    proof (cases i)
      case 0
      with False show ?thesis by (simp add: ss)
    next
      case (Suc k)
      with Cons.prems ss have "Suc k < length ss'" by simp
      from Cons.IH [OF r this] show ?thesis by (simp add: ss Suc)
    qed
  qed
qed

lemma epoch_loop_exit:
  "epoch_loop fw ps es s = (ss, ex) \<Longrightarrow>
     (ex = Broke \<longrightarrow> ss \<noteq> [] \<and> patience_counter (last ss) \<ge> patience ps) \<and>
     (ex = Exhausted \<longrightarrow> length ss = length es \<and>
        (ss \<noteq> [] \<longrightarrow> patience_counter (last ss) < patience ps))"
proof (induction es arbitrary: s ss ex)
  case Nil
  then show ?case by simp
next
  case (Cons e es)
  let ?s' = "epoch_body fw ps e s"
  show ?case
  proof (cases "patience_counter ?s' \<ge> patience ps")
    case True
    with Cons.prems show ?thesis by (auto simp: Let_def)
  next
    case False
    obtain ss' ex' where r: "epoch_loop fw ps es ?s' = (ss', ex')"
      by (cases "epoch_loop fw ps es ?s'")
    with False Cons.prems have ss: "ss = ?s' # ss'" and ex: "ex = ex'"
      by (auto simp: Let_def)
    from Cons.IH [OF r] False show ?thesis
      by (auto simp: ss ex)
  qed
qed



lemma epoch_body_io_cases:
  "io_log (epoch_body fw ps e s) = io_log s \<or>
   (\<exists>ck all_prob w tm l a w'.
       validate fw TestLoader w = ((tm, l, a, all_prob), w') \<and>
       io_log (epoch_body fw ps e s) = io_log s @
       (if if_save_model ps
        then [TorchSave (os_path_join (target_dir ps) ''best.pth.tar'') ck] else []) @
       [ToCsv (os_path_join (target_dir ps) ''test_prediction.csv'')
          (to_csv False (prediction_frame all_prob))])"
proof (cases "last (valid_accuracies (epoch_body fw ps e s)) < best_score s")
  case True
  then show ?thesis by (simp add: epoch_body_io_worse)
next
  case False
  from epoch_body_io_better [OF False] show ?thesis by blast
qed

lemma epoch_body_io_prefix:
  "io_log (epoch_body fw ps e s) = io_log s @ new_io s (epoch_body fw ps e s)"
  using epoch_body_io_cases [of fw ps e s] by (auto simp: new_io_def)

lemma epoch_loop_invariant:
  assumes "P s" and "\<And>e s. P s \<Longrightarrow> P (epoch_body fw ps e s)"
    and "epoch_loop fw ps es s = (ss, ex)"
  shows "\<forall>s' \<in> set (s # ss). P s'"
  using assms(1,3)
proof (induction es arbitrary: s ss ex)
  case Nil
  then show ?case by simp
next
  case (Cons e es)
  let ?s' = "epoch_body fw ps e s"
  have P': "P ?s'" using Cons.prems(1) by (rule assms(2))
  show ?case
  proof (cases "patience_counter ?s' \<ge> patience ps")
    case True
    with Cons.prems P' show ?thesis by (auto simp: Let_def)
  next
    case False
    obtain ss' ex' where r: "epoch_loop fw ps es ?s' = (ss', ex')"
      by (cases "epoch_loop fw ps es ?s'")
    with False Cons.prems have ss: "ss = ?s' # ss'"
      by (auto simp: Let_def)
    from Cons.IH [OF P' r] Cons.prems(1) show ?thesis
      by (simp add: ss)
  qed
qed

section \<open>A whole run\<close>

lemma restore_cases:
  assumes "restore fw ps fs s = Inr s'"
  shows "s' = s \<or>
    (\<exists>p ck. checkpoint ps = Some p \<and> p \<noteq> [] \<and> fs p = Some (CheckpointFile ck) \<and>
       io_log s' = io_log s @ [TorchLoad p None] \<and>
       start_epoch s' = ck_epoch ck + 1 \<and> best_score s' = ck_best_score ck \<and>
       valid_aucs s' = valid_aucs s \<and> valid_accuracies s' = valid_accuracies s \<and>
       train_accuracies s' = train_accuracies s \<and>
       epochs_count s' = ck_epochs_count ck \<and> train_losses s' = ck_train_losses ck \<and>
       valid_losses s' = ck_valid_losses ck)"
  using assms
  by (auto simp: restore_def torch_load_def
      split: option.splits if_splits sum.splits stored.splits)

lemma baseline_fields:
  "best_score (baseline fw s) = best_score s"
  "start_epoch (baseline fw s) = start_epoch s"
  "patience_counter (baseline fw s) = 0"
  "io_log (baseline fw s) = io_log s"
  "valid_aucs (baseline fw s) = valid_aucs s"
  "valid_accuracies (baseline fw s) = valid_accuracies s"
  "train_accuracies (baseline fw s) = train_accuracies s"
  "epochs_count (baseline fw s) = epochs_count s"
  by (simp_all add: baseline_def split: prod.splits)

lemma run_unfold:
  assumes "model_train_validate_test fw ps fs w = Inr (s0, ss, ex)"
  shows "\<exists>s. restore fw ps fs (fresh w) = Inr s \<and> s0 = baseline fw s \<and>
           epoch_loop fw ps [start_epoch s0..epochs ps] s0 = (ss, ex)"
  using assms
  by (auto simp: model_train_validate_test_def Let_def split: sum.splits)

lemma run_entry:
  assumes "model_train_validate_test fw ps fs w = Inr (s0, ss, ex)"
  shows "patience_counter s0 = 0" and "saved_checkpoints (io_log s0) = []"
    and "valid_aucs s0 = []" and "\<forall>p c. ToCsv p c \<notin> set (io_log s0)"
    and "\<forall>p c. TorchSave p c \<notin> set (io_log s0)"
proof -
  from run_unfold [OF assms] obtain s where
    r: "restore fw ps fs (fresh w) = Inr s" and s0: "s0 = baseline fw s"
    by blast
  show "patience_counter s0 = 0" by (simp add: s0 baseline_fields)
  from restore_cases [OF r]
  have "(io_log s = [] \<or> (\<exists>p. io_log s = [TorchLoad p None])) \<and> valid_aucs s = []"
    by (auto simp: fresh_def)
  then show "saved_checkpoints (io_log s0) = []" and "valid_aucs s0 = []"
    and "\<forall>p c. ToCsv p c \<notin> set (io_log s0)" and "\<forall>p c. TorchSave p c \<notin> set (io_log s0)"
    by (auto simp: s0 baseline_fields)
qed

lemma run_step:
  assumes "model_train_validate_test fw ps fs w = Inr (s0, ss, ex)" and "i < length ss"
  shows "ss ! i = epoch_body fw ps (start_epoch s0 + int i) ((s0 # ss) ! i)"
proof -
  from run_unfold [OF assms(1)]
  have l: "epoch_loop fw ps [start_epoch s0..epochs ps] s0 = (ss, ex)" by blast
  from epoch_loop_nth [OF l assms(2)]
  have i: "i < length [start_epoch s0..epochs ps]"
    and e: "ss ! i = epoch_body fw ps ([start_epoch s0..epochs ps] ! i) ((s0 # ss) ! i)"
    by blast+
  from i have "start_epoch s0 + int i \<le> epochs ps" by simp
  then have "[start_epoch s0..epochs ps] ! i = start_epoch s0 + int i"
    by (rule nth_upto)
  with e show ?thesis by simp
qed

lemma run_invariant:
  assumes "model_train_validate_test fw ps fs w = Inr (s0, ss, ex)"
    and "P s0" and "\<And>e s. P s \<Longrightarrow> P (epoch_body fw ps e s)"
  shows "\<forall>s' \<in> set (s0 # ss). P s'"
proof -
  from run_unfold [OF assms(1)]
  have l: "epoch_loop fw ps [start_epoch s0..epochs ps] s0 = (ss, ex)" by blast
  from epoch_loop_invariant [of P, OF assms(2) assms(3) l] show ?thesis .
qed

lemma csv_ok_step: "csv_ok fw ps s \<Longrightarrow> csv_ok fw ps (epoch_body fw ps e s)"
proof -
  assume ok: "csv_ok fw ps s"
  from epoch_body_io_cases [of fw ps e s] show ?thesis
  proof
    assume "io_log (epoch_body fw ps e s) = io_log s"
    with ok show ?thesis by (simp add: csv_ok_def)
  next
    assume "\<exists>ck all_prob w tm l a w'.
       validate fw TestLoader w = ((tm, l, a, all_prob), w') \<and>
       io_log (epoch_body fw ps e s) = io_log s @
       (if if_save_model ps
        then [TorchSave (os_path_join (target_dir ps) ''best.pth.tar'') ck] else []) @
       [ToCsv (os_path_join (target_dir ps) ''test_prediction.csv'')
          (to_csv False (prediction_frame all_prob))]"
    then obtain ck all_prob w tm l a w' where
      v: "validate fw TestLoader w = ((tm, l, a, all_prob), w')" and
      io: "io_log (epoch_body fw ps e s) = io_log s @
       (if if_save_model ps
        then [TorchSave (os_path_join (target_dir ps) ''best.pth.tar'') ck] else []) @
       [ToCsv (os_path_join (target_dir ps) ''test_prediction.csv'')
          (to_csv False (prediction_frame all_prob))]"
      by blast
    show ?thesis
      unfolding csv_ok_def
    proof (intro allI impI)
      fix p c
      assume "ToCsv p c \<in> set (io_log (epoch_body fw ps e s))"
      then have "ToCsv p c \<in> set (io_log s) \<or>
        (p = os_path_join (target_dir ps) ''test_prediction.csv'' \<and>
         c = to_csv False (prediction_frame all_prob))"
        by (auto simp: io split: if_splits)
      then show "p = os_path_join (target_dir ps) ''test_prediction.csv'' \<and>
        (\<exists>all_prob w tm l a w'.
           validate fw TestLoader w = ((tm, l, a, all_prob), w') \<and>
           c = to_csv False (prediction_frame all_prob))"
      proof
        assume "ToCsv p c \<in> set (io_log s)"
        with ok show ?thesis unfolding csv_ok_def by blast
      next
        assume "p = os_path_join (target_dir ps) ''test_prediction.csv'' \<and>
          c = to_csv False (prediction_frame all_prob)"
        with v show ?thesis by blast
      qed
    qed
  qed
qed

lemma run_csv:
  assumes "model_train_validate_test fw ps fs w = Inr (s0, ss, ex)"
    and "ToCsv p c \<in> set (io_log (last (s0 # ss)))"
  shows "p = os_path_join (target_dir ps) ''test_prediction.csv'' \<and>
        (\<exists>all_prob w tm l a w'.
           validate fw TestLoader w = ((tm, l, a, all_prob), w') \<and>
           c = to_csv False (prediction_frame all_prob))"
proof -
  have "csv_ok fw ps s0" using run_entry(4) [OF assms(1)] by (simp add: csv_ok_def)
  from run_invariant [of fw ps fs w s0 ss ex "csv_ok fw ps", OF assms(1) this csv_ok_step]
  have "csv_ok fw ps (last (s0 # ss))" by (metis last_in_set list.distinct(1))
  with assms(2) show ?thesis unfolding csv_ok_def by blast
qed

lemma load_test_io:
  assumes "model_load_test fw platform fs tdir d n w = Inr (w', out)"
  shows "\<exists>ck tm tt a all_prob.
     fs (os_path_join tdir ''best.pth.tar'') = Some (CheckpointFile ck) \<and>
     test fw TestLoader (model_load_state_dict fw (ck_model ck) w) = ((tm, tt, a, all_prob), w') \<and>
     out =
     [TorchLoad (os_path_join tdir ''best.pth.tar'') (map_location platform),
      ToCsv (os_path_join d n) (to_csv False (prediction_frame all_prob))]"
proof -
  from assms obtain ck where
    l: "torch_load fs (os_path_join tdir ''best.pth.tar'') = Inr ck"
    by (cases "torch_load fs (os_path_join tdir ''best.pth.tar'')")
       (simp_all add: model_load_test_def)
  then have f: "fs (os_path_join tdir ''best.pth.tar'') = Some (CheckpointFile ck)"
    by (auto simp: torch_load_def split: option.splits stored.splits)
  obtain tm tt a all_prob w2 where
    t: "test fw TestLoader (model_load_state_dict fw (ck_model ck) w) = ((tm, tt, a, all_prob), w2)"
    by (metis prod.exhaust)
  from assms have "w' = w2 \<and> out =
     [TorchLoad (os_path_join tdir ''best.pth.tar'') (map_location platform),
      ToCsv (os_path_join d n) (to_csv False (prediction_frame all_prob))]"
    by (simp add: model_load_test_def l t)
  with f t show ?thesis by blast
qed

text \<open>The tables that either driver writes.\<close>

lemma written_csv_form:
  assumes "(model_train_validate_test fw ps fs w = Inr (s0, ss, ex) \<and>
              ToCsv p c \<in> set (io_log (last (s0 # ss)))) \<or>
           (model_load_test fw platform fs tdir d n w = Inr (w', out) \<and>
              ToCsv p c \<in> set out)"
  shows "\<exists>all_prob.
           (\<exists>v tm l a v'. validate fw TestLoader v = ((tm, l, a, all_prob), v') \<or>
                          test fw TestLoader v = ((tm, l, a, all_prob), v')) \<and>
           c = to_csv False (prediction_frame all_prob)"
  using assms
proof (elim disjE conjE)
  assume r: "model_train_validate_test fw ps fs w = Inr (s0, ss, ex)"
    and m: "ToCsv p c \<in> set (io_log (last (s0 # ss)))"
  from run_csv [OF r m] show ?thesis by blast
next
  assume r: "model_load_test fw platform fs tdir d n w = Inr (w', out)"
    and m: "ToCsv p c \<in> set out"
  from load_test_io [OF r] obtain ck tm tt a all_prob where
    "fs (os_path_join tdir ''best.pth.tar'') = Some (CheckpointFile ck)" and
    t: "test fw TestLoader (model_load_state_dict fw (ck_model ck) w) = ((tm, tt, a, all_prob), w')"
    and o: "out = [TorchLoad (os_path_join tdir ''best.pth.tar'') (map_location platform),
            ToCsv (os_path_join d n) (to_csv False (prediction_frame all_prob))]"
    by (elim exE conjE)
  from m o have "c = to_csv False (prediction_frame all_prob)" by simp
  with t show ?thesis by blast
qed

lemma decide_cases:
  "(decide a b = 0 \<longleftrightarrow> a > b) \<and> (decide a b = 1 \<longleftrightarrow> b \<ge> a)"
  by (simp add: decide_def not_less)

lemma prediction_row:
  assumes "i < length all_prob"
  shows "rows (to_csv False (prediction_frame all_prob)) ! i =
     [FloatCell (1 - all_prob ! i), FloatCell (all_prob ! i),
      IntCell (decide (1 - all_prob ! i) (all_prob ! i))]"
  using assms by (simp add: rows_prediction_csv)


section \<open>Concrete runs of the inference driver\<close>

lemma demo_load_test:
  "model_load_test (scripted_framework demo_probs) ''linux'' demo_filesystem
      ''out'' ''pred'' ''test.csv'' [] =
     Inr ([], [TorchLoad ''out/best.pth.tar'' None, ToCsv ''pred/test.csv'' demo_csv])"
  by (simp add: model_load_test_def torch_load_def demo_filesystem_def scripted_framework_def
      os_path_join_def map_location_def demo_csv_def)

lemma demo_load_test_windows:
  "model_load_test (scripted_framework demo_probs) ''win32'' demo_filesystem
      ''out'' ''pred'' ''test.csv'' [] =
     Inr ([], [TorchLoad ''out/best.pth.tar'' (Some (Device ''cuda'')),
               ToCsv ''pred/test.csv'' demo_csv])"
  by (simp add: model_load_test_def torch_load_def demo_filesystem_def scripted_framework_def
      os_path_join_def map_location_def demo_csv_def inference_device_def)

lemma demo_csv_rows:
  "rows demo_csv =
     [[FloatCell (1 / 10), FloatCell (9 / 10), IntCell 1],
      [FloatCell (4 / 5), FloatCell (1 / 5), IntCell 0],
      [FloatCell (1 / 2), FloatCell (1 / 2), IntCell 1],
      [FloatCell (49 / 100), FloatCell (51 / 100), IntCell 1]]"
  by (simp add: demo_csv_def demo_probs_def rows_prediction_csv decide_def)

section \<open>The thresholded decision\<close>

text \<open>
  Claim C1 says that the decision is 1 exactly when \<open>prob_1 > prob_0\<close>, so that a tie
  resolves to 0, and that the probabilities 0.9, 0.2, 0.5, 0.51 give the decisions
  1, 0, 0, 1. The source tests \<open>prob_0 > prob_1\<close> and answers 1 otherwise: in the third
  row of the scenario both probabilities are 1/2 (exactly, also in binary floating
  point) and the decision written is 1, not 0.
\<close>

theorem decision_tie_counterexample:
  "rows (to_csv False (prediction_frame [9 / 10, 1 / 5, 1 / 2, 51 / 100])) ! 2 =
     [FloatCell (1 / 2), FloatCell (1 / 2), IntCell 1] \<and>
   rows (to_csv False (prediction_frame [9 / 10, 1 / 5, 1 / 2, 51 / 100])) ! 2 \<noteq>
     [FloatCell (1 / 2), FloatCell (1 / 2), IntCell 0]"
  by (simp add: rows_prediction_csv decide_def)

text \<open>
  C1, as the code has it: in every row of every prediction table written by the training
  driver or by the inference driver, the decision is 0 exactly when \<open>prob_0 > prob_1\<close> and
  1 exactly when \<open>prob_1 \<ge> prob_0\<close>, so a tie resolves to 1; the four-example scenario
  yields the decisions 1, 0, 1, 1.
\<close>

theorem decision_rule:
  assumes "(model_train_validate_test fw ps fs w = Inr (s0, ss, ex) \<and>
              ToCsv p c \<in> set (io_log (last (s0 # ss)))) \<or>
           (model_load_test fw platform fs tdir d n w = Inr (w', out) \<and>
              ToCsv p c \<in> set out)"
    and "i < length (rows c)"
  shows "(\<exists>prob_0 prob_1 prediction.
            rows c ! i = [FloatCell prob_0, FloatCell prob_1, IntCell prediction] \<and>
            (prediction = 0 \<longleftrightarrow> prob_0 > prob_1) \<and>
            (prediction = 1 \<longleftrightarrow> prob_1 \<ge> prob_0)) \<and>
         rows (to_csv False (prediction_frame [9 / 10, 1 / 5, 1 / 2, 51 / 100])) =
           [[FloatCell (1 / 10), FloatCell (9 / 10), IntCell 1],
            [FloatCell (4 / 5), FloatCell (1 / 5), IntCell 0],
            [FloatCell (1 / 2), FloatCell (1 / 2), IntCell 1],
            [FloatCell (49 / 100), FloatCell (51 / 100), IntCell 1]]"
proof (rule conjI)
  from written_csv_form [OF assms(1)] obtain all_prob
    where c: "c = to_csv False (prediction_frame all_prob)" by (elim exE conjE)
  from assms(2) have i: "i < length all_prob" by (simp add: c rows_prediction_csv)
  let ?p1 = "all_prob ! i"
  let ?p0 = "1 - all_prob ! i"
  have "rows c ! i = [FloatCell ?p0, FloatCell ?p1, IntCell (decide ?p0 ?p1)] \<and>
        (decide ?p0 ?p1 = 0 \<longleftrightarrow> ?p0 > ?p1) \<and> (decide ?p0 ?p1 = 1 \<longleftrightarrow> ?p1 \<ge> ?p0)"
    using prediction_row [OF i] decide_cases [of ?p0 ?p1] by (simp only: c) 
  then show "\<exists>prob_0 prob_1 prediction.
            rows c ! i = [FloatCell prob_0, FloatCell prob_1, IntCell prediction] \<and>
            (prediction = 0 \<longleftrightarrow> prob_0 > prob_1) \<and>
            (prediction = 1 \<longleftrightarrow> prob_1 \<ge> prob_0)"
    by (intro exI)
next
  show "rows (to_csv False (prediction_frame [9 / 10, 1 / 5, 1 / 2, 51 / 100])) =
           [[FloatCell (1 / 10), FloatCell (9 / 10), IntCell 1],
            [FloatCell (4 / 5), FloatCell (1 / 5), IntCell 0],
            [FloatCell (1 / 2), FloatCell (1 / 2), IntCell 1],
            [FloatCell (49 / 100), FloatCell (51 / 100), IntCell 1]]"
    by (simp add: rows_prediction_csv decide_def)
qed

theorem decision_rule_witness:
  "model_load_test (scripted_framework demo_probs) ''linux'' demo_filesystem
      ''out'' ''pred'' ''test.csv'' [] =
     Inr ([], [TorchLoad ''out/best.pth.tar'' None, ToCsv ''pred/test.csv'' demo_csv]) \<and>
   ToCsv ''pred/test.csv'' demo_csv \<in>
     set [TorchLoad ''out/best.pth.tar'' None, ToCsv ''pred/test.csv'' demo_csv] \<and>
   2 < length (rows demo_csv) \<and>
   (\<exists>prob_0 prob_1 prediction.
      rows demo_csv ! 2 = [FloatCell prob_0, FloatCell prob_1, IntCell prediction] \<and>
      (prediction = 0 \<longleftrightarrow> prob_0 > prob_1) \<and>
      (prediction = 1 \<longleftrightarrow> prob_1 \<ge> prob_0))"
proof -
  have m: "ToCsv ''pred/test.csv'' demo_csv \<in>
     set [TorchLoad ''out/best.pth.tar'' None, ToCsv ''pred/test.csv'' demo_csv]"
    by simp
  have l: "2 < length (rows demo_csv)" by (simp add: demo_csv_rows)
  have h: "(model_train_validate_test (scripted_framework demo_probs) demo_params
               demo_filesystem [] = Inr (s0, ss, ex) \<and>
              ToCsv ''pred/test.csv'' demo_csv \<in> set (io_log (last (s0 # ss)))) \<or>
           (model_load_test (scripted_framework demo_probs) ''linux'' demo_filesystem
              ''out'' ''pred'' ''test.csv'' [] =
              Inr ([], [TorchLoad ''out/best.pth.tar'' None, ToCsv ''pred/test.csv'' demo_csv]) \<and>
            ToCsv ''pred/test.csv'' demo_csv \<in>
              set [TorchLoad ''out/best.pth.tar'' None, ToCsv ''pred/test.csv'' demo_csv])"
    for s0 ss ex
    using demo_load_test m by blast
  from decision_rule [OF h l] demo_load_test m l show ?thesis by blast
qed


section \<open>Loading the checkpoint for inference\<close>

text \<open>
  Claim C8 says that the load is direct exactly when running on the training device.
  Both drivers fix the device to \<open>cuda\<close>, so inference always runs on the device of
  training; yet on the platform \<open>win32\<close> the load is remapped.
\<close>

theorem load_device_counterexample:
  "inference_device = training_device \<and>
   model_load_test (scripted_framework demo_probs) ''win32'' demo_filesystem
      ''out'' ''pred'' ''test.csv'' [] =
     Inr ([], [TorchLoad ''out/best.pth.tar'' (Some (Device ''cuda'')),
               ToCsv ''pred/test.csv'' demo_csv])"
  using demo_load_test_windows by (simp add: inference_device_def training_device_def)

text \<open>
  C8, as the code has it: \<open>model_load_test\<close> first loads \<open>best.pth.tar\<close> from the target
  directory, directly exactly when \<open>sys.platform\<close> is \<open>linux\<close> or \<open>linux2\<close> and remapped to
  the \<open>cuda\<close> device on every other platform; the choice depends on the platform name only.
\<close>

theorem load_by_platform:
  assumes "model_load_test fw platform fs tdir d n w = Inr (w', out)"
  shows "\<exists>c. out =
     [TorchLoad (os_path_join tdir ''best.pth.tar'')
        (if platform = ''linux'' \<or> platform = ''linux2'' then None
         else Some (Device ''cuda'')),
      ToCsv (os_path_join d n) c]"
proof -
  from load_test_io [OF assms] obtain all_prob where
    "out = [TorchLoad (os_path_join tdir ''best.pth.tar'') (map_location platform),
            ToCsv (os_path_join d n) (to_csv False (prediction_frame all_prob))]"
    by (elim exE conjE)
  then show ?thesis
    by (simp add: map_location_def inference_device_def)
qed

theorem load_by_platform_witness:
  "model_load_test (scripted_framework demo_probs) ''win32'' demo_filesystem
      ''out'' ''pred'' ''test.csv'' [] =
     Inr ([], [TorchLoad ''out/best.pth.tar'' (Some (Device ''cuda'')),
               ToCsv ''pred/test.csv'' demo_csv]) \<and>
   (\<exists>c. [TorchLoad ''out/best.pth.tar'' (Some (Device ''cuda'')),
          ToCsv ''pred/test.csv'' demo_csv] =
     [TorchLoad (os_path_join ''out'' ''best.pth.tar'')
        (if ''win32'' = ''linux'' \<or> ''win32'' = ''linux2'' then None
         else Some (Device ''cuda'')),
      ToCsv (os_path_join ''pred'' ''test.csv'') c])"
  using load_by_platform [OF demo_load_test_windows] demo_load_test_windows by blast

section \<open>Concrete runs of the training driver\<close>

lemmas driver_defs =
  restore_def fresh_def baseline_def epoch_body_def train_and_validate_def
  save_checkpoint_def checkpoint_dict_def export_test_prediction_def
  scripted_framework_def demo_params_def os_path_join_def torch_load_def

lemmas demo_state_defs = demo_s0_def demo_s1_def demo_s2_def demo_s3_def demo_world_def
lemmas nosave_state_defs = nosave_s1_def nosave_s2_def nosave_s3_def nosave_params_def
lemmas stop_state_defs = stop_s0_def stop_s1_def stop_s2_def stop_s3_def stop_world_def
  stop_params_def
lemmas resume_state_defs = resume_s0_def resume_s2_def resume_s3_def resume_world_def
  resume_params_def demo_filesystem_def demo_checkpoint_def

lemma demo_run:
  "model_train_validate_test (scripted_framework demo_probs) demo_params Map.empty demo_world =
     Inr (demo_s0, [demo_s1, demo_s2, demo_s3], Exhausted)"
  by (simp add: model_train_validate_test_def demo_state_defs driver_defs Let_def upto_rec1)

lemma demo_best_scores:
  "best_score demo_s0 = 0" "best_score demo_s1 = 1 / 2"
  "best_score demo_s2 = 1 / 2" "best_score demo_s3 = 3 / 5"
  by (simp_all add: demo_state_defs driver_defs)

lemma demo_saved:
  "saved_checkpoints (io_log demo_s3) =
     [demo_checkpoint,
      \<lparr>ck_epoch = 3, ck_model = 0, ck_optimizer = 0, ck_best_score = 3 / 5,
       ck_epochs_count = [1, 2, 3], ck_train_losses = [1 / 4, 1 / 4, 1 / 4],
       ck_train_accuracy = [1 / 10, 1 / 5, 3 / 10],
       ck_valid_losses = [1 / 8, 1 / 8, 1 / 8],
       ck_valid_accuracy = [1 / 2, 2 / 5, 3 / 5], ck_valid_auc = []\<rparr>]"
  by (simp add: demo_state_defs driver_defs demo_checkpoint_def)

lemma demo_new_io_1:
  "new_io demo_s0 demo_s1 =
     [TorchSave ''out/best.pth.tar'' demo_checkpoint,
      ToCsv ''out/test_prediction.csv'' demo_csv]"
  by (simp add: new_io_def demo_state_defs driver_defs demo_checkpoint_def demo_csv_def)

lemma demo_new_io_2: "new_io demo_s1 demo_s2 = []"
  by (simp add: new_io_def demo_state_defs driver_defs)

lemma demo_accs:
  "valid_accuracies demo_s1 = [1 / 2]" "valid_accuracies demo_s2 = [1 / 2, 2 / 5]"
  "valid_accuracies demo_s3 = [1 / 2, 2 / 5, 3 / 5]"
  by (simp_all add: demo_state_defs driver_defs)

lemma demo_counters:
  "patience_counter demo_s0 = 0" "patience_counter demo_s1 = 0"
  "patience_counter demo_s2 = 1" "patience_counter demo_s3 = 0"
  by (simp_all add: demo_state_defs driver_defs)

lemma nosave_run:
  "model_train_validate_test (scripted_framework demo_probs) nosave_params Map.empty demo_world =
     Inr (demo_s0, [nosave_s1, nosave_s2, nosave_s3], Exhausted)"
  by (simp add: model_train_validate_test_def demo_state_defs nosave_state_defs driver_defs
      Let_def upto_rec1)

lemma nosave_facts:
  "valid_accuracies nosave_s3 = [1 / 2, 2 / 5, 3 / 5]"
  "saved_checkpoints (io_log nosave_s3) = []"
  "csv_writes (io_log nosave_s3) =
     [(''out/test_prediction.csv'', demo_csv), (''out/test_prediction.csv'', demo_csv)]"
  by (simp_all add: demo_state_defs nosave_state_defs driver_defs demo_csv_def)

lemma stop_run:
  "model_train_validate_test (scripted_framework demo_probs) stop_params Map.empty stop_world =
     Inr (stop_s0, [stop_s1, stop_s2, stop_s3], Broke)"
  by (simp add: model_train_validate_test_def stop_state_defs driver_defs Let_def upto_rec1)

lemma stop_counters:
  "patience_counter stop_s0 = 0" "patience_counter stop_s1 = 0"
  "patience_counter stop_s2 = 1" "patience_counter stop_s3 = 2"
  "patience stop_params = 2"
  by (simp_all add: stop_state_defs driver_defs)

lemma resume_run:
  "model_train_validate_test (scripted_framework demo_probs) resume_params demo_filesystem
     resume_world = Inr (resume_s0, [resume_s2, resume_s3], Exhausted)"
  by (simp add: model_train_validate_test_def resume_state_defs driver_defs Let_def upto_rec1)

lemma resume_entry:
  "start_epoch resume_s0 = 2" "best_score resume_s0 = 1 / 2"
  "epochs_count resume_s0 = [1]" "train_losses resume_s0 = [1 / 4]"
  "valid_losses resume_s0 = [1 / 8]"
  "train_accuracies resume_s0 = []" "valid_accuracies resume_s0 = []"
  "train_accuracy resume_s0 = ListVal [1 / 10]" "valid_accuracy resume_s0 = FloatVal (2 / 5)"
  by (simp_all add: resume_state_defs driver_defs)

lemma resume_after:
  "epochs_count resume_s2 = [1, 2]" "train_losses resume_s2 = [1 / 4, 1 / 4]"
  "valid_losses resume_s2 = [1 / 8, 1 / 8]"
  "train_accuracies resume_s2 = [1 / 5]" "valid_accuracies resume_s2 = [3 / 5]"
  by (simp_all add: resume_state_defs driver_defs)

lemma resume_saved:
  "saved_checkpoints (io_log resume_s2) =
     [\<lparr>ck_epoch = 2, ck_model = 1, ck_optimizer = 1, ck_best_score = 3 / 5,
       ck_epochs_count = [1, 2], ck_train_losses = [1 / 4, 1 / 4],
       ck_train_accuracy = [1 / 5],
       ck_valid_losses = [1 / 8, 1 / 8],
       ck_valid_accuracy = [3 / 5], ck_valid_auc = []\<rparr>]"
  by (simp add: resume_state_defs driver_defs)

section \<open>Runs in general\<close>

lemma saved_checkpoints_append:
  "saved_checkpoints (xs @ ys) = saved_checkpoints xs @ saved_checkpoints ys"
  by (induction xs) (auto split: io.splits)

lemma saved_checkpoints_set:
  "ck \<in> set (saved_checkpoints xs) \<longleftrightarrow> (\<exists>p. TorchSave p ck \<in> set xs)"
  by (induction xs) (auto split: io.splits)

text \<open>What one iteration adds to the log.\<close>

lemma epoch_body_new_io:
  "(last (valid_accuracies (epoch_body fw ps e s)) < best_score s \<and>
      new_io s (epoch_body fw ps e s) = []) \<or>
   (\<not> last (valid_accuracies (epoch_body fw ps e s)) < best_score s \<and>
    (\<exists>ck tm l a all_prob w.
       ck_epoch ck = e \<and> ck_best_score ck = best_score (epoch_body fw ps e s) \<and>
       ck_valid_auc ck = valid_aucs s \<and>
       validate fw TestLoader w = ((tm, l, a, all_prob), world (epoch_body fw ps e s)) \<and>
       new_io s (epoch_body fw ps e s) =
         (if if_save_model ps
          then [TorchSave (os_path_join (target_dir ps) ''best.pth.tar'') ck] else []) @
         [ToCsv (os_path_join (target_dir ps) ''test_prediction.csv'')
            (to_csv False (prediction_frame all_prob))]))"
proof (cases "last (valid_accuracies (epoch_body fw ps e s)) < best_score s")
  case True
  then show ?thesis by (simp add: epoch_body_io_worse new_io_def)
next
  case False
  from epoch_body_io_better [OF False] obtain ck tm l a all_prob w where
    "ck_epoch ck = e" "ck_best_score ck = best_score (epoch_body fw ps e s)"
    "ck_valid_auc ck = valid_aucs s"
    "validate fw TestLoader w = ((tm, l, a, all_prob), world (epoch_body fw ps e s))"
    and io: "io_log (epoch_body fw ps e s) = io_log s @
       (if if_save_model ps
        then [TorchSave (os_path_join (target_dir ps) ''best.pth.tar'') ck] else []) @
       [ToCsv (os_path_join (target_dir ps) ''test_prediction.csv'')
          (to_csv False (prediction_frame all_prob))]"
    by blast
  moreover from io have "new_io s (epoch_body fw ps e s) =
         (if if_save_model ps
          then [TorchSave (os_path_join (target_dir ps) ''best.pth.tar'') ck] else []) @
         [ToCsv (os_path_join (target_dir ps) ''test_prediction.csv'')
            (to_csv False (prediction_frame all_prob))]"
    by (simp add: new_io_def)
  ultimately show ?thesis using False by blast
qed

text \<open>The best score before iteration \<open>i\<close> bounds exactly the starting score and the
  accuracies of the earlier iterations.\<close>

lemma run_best_score_bound:
  assumes run: "model_train_validate_test fw ps fs w = Inr (s0, ss, ex)"
  shows "i \<le> length ss \<Longrightarrow>
     best_score ((s0 # ss) ! i) \<le> x \<longleftrightarrow>
       best_score s0 \<le> x \<and> (\<forall>j<i. last (valid_accuracies (ss ! j)) \<le> x)"
proof (induction i)
  case 0
  then show ?case by simp
next
  case (Suc i)
  then have i: "i < length ss" by simp
  from run_step [OF run i]
  have "best_score (ss ! i) =
          max (best_score ((s0 # ss) ! i)) (last (valid_accuracies (ss ! i)))"
    by (simp add: epoch_body_best_score)
  then have "best_score ((s0 # ss) ! Suc i) \<le> x \<longleftrightarrow>
      best_score ((s0 # ss) ! i) \<le> x \<and> last (valid_accuracies (ss ! i)) \<le> x"
    by simp
  also have "\<dots> \<longleftrightarrow> (best_score s0 \<le> x \<and> (\<forall>j<i. last (valid_accuracies (ss ! j)) \<le> x)) \<and>
      last (valid_accuracies (ss ! i)) \<le> x"
    using Suc.IH i by simp
  also have "\<dots> \<longleftrightarrow> best_score s0 \<le> x \<and> (\<forall>j<Suc i. last (valid_accuracies (ss ! j)) \<le> x)"
    by (auto simp: less_Suc_eq)
  finally show ?case .
qed

lemma run_io_prefix:
  assumes run: "model_train_validate_test fw ps fs w = Inr (s0, ss, ex)" and i: "i < length ss"
  shows "io_log (ss ! i) = io_log ((s0 # ss) ! i) @ new_io ((s0 # ss) ! i) (ss ! i)"
  using run_step [OF run i] epoch_body_io_prefix [of fw ps "start_epoch s0 + int i" "(s0 # ss) ! i"]
  by simp

lemma run_saves_within:
  assumes run: "model_train_validate_test fw ps fs w = Inr (s0, ss, ex)"
  shows "k \<le> length ss \<Longrightarrow> TorchSave p ck \<in> set (io_log ((s0 # ss) ! k)) \<Longrightarrow>
     \<exists>i<k. TorchSave p ck \<in> set (new_io ((s0 # ss) ! i) (ss ! i))"
proof (induction k)
  case 0
  with run_entry(5) [OF run] show ?case by simp
next
  case (Suc k)
  then have k: "k < length ss" by simp
  from Suc.prems(2) have "TorchSave p ck \<in> set (io_log (ss ! k))" by simp
  with run_io_prefix [OF run k]
  have "TorchSave p ck \<in> set (io_log ((s0 # ss) ! k)) \<or>
        TorchSave p ck \<in> set (new_io ((s0 # ss) ! k) (ss ! k))"
    by (metis Un_iff set_append)
  then show ?case
  proof
    assume "TorchSave p ck \<in> set (io_log ((s0 # ss) ! k))"
    with Suc.IH k obtain i where "i < k"
      "TorchSave p ck \<in> set (new_io ((s0 # ss) ! i) (ss ! i))"
      by auto
    then show ?thesis by (metis less_Suc_eq)
  next
    assume "TorchSave p ck \<in> set (new_io ((s0 # ss) ! k) (ss ! k))"
    then show ?thesis by blast
  qed
qed

lemma last_as_nth: "last (s0 # ss) = (s0 # ss) ! length ss"
  by (metis last_conv_nth length_Cons diff_Suc_1 list.distinct(1))

section \<open>The best score\<close>

text \<open>
  C2: in every run of \<open>model_train_validate_test\<close> the best score never decreases: after
  each epoch it is at least what it was before the epoch, and the best scores stored in
  the checkpoints that the run writes, taken in the order of writing, are non-decreasing.
\<close>

theorem best_score_monotone:
  assumes run: "model_train_validate_test fw ps fs w = Inr (s0, ss, ex)"
  shows "(\<forall>i<length ss. best_score ((s0 # ss) ! i) \<le> best_score (ss ! i)) \<and>
         sorted (map ck_best_score (saved_checkpoints (io_log (last (s0 # ss)))))"
proof
  show "\<forall>i<length ss. best_score ((s0 # ss) ! i) \<le> best_score (ss ! i)"
  proof (intro allI impI)
    fix i assume i: "i < length ss"
    from run_step [OF run i]
    have "best_score (ss ! i) =
            max (best_score ((s0 # ss) ! i)) (last (valid_accuracies (ss ! i)))"
      by (simp add: epoch_body_best_score)
    then show "best_score ((s0 # ss) ! i) \<le> best_score (ss ! i)" by simp
  qed
next
  let ?P = "\<lambda>s. sorted (map ck_best_score (saved_checkpoints (io_log s))) \<and>
                 (\<forall>ck \<in> set (saved_checkpoints (io_log s)). ck_best_score ck \<le> best_score s)"
  have P0: "?P s0" using run_entry(2) [OF run] by simp
  have step: "?P (epoch_body fw ps e s)" if P: "?P s" for e s
  proof -
    have le: "best_score s \<le> best_score (epoch_body fw ps e s)"
      by (simp add: epoch_body_best_score)
    from epoch_body_new_io [of fw ps e s] show ?thesis
    proof (elim disjE conjE exE)
      assume "new_io s (epoch_body fw ps e s) = []"
      with epoch_body_io_prefix [of fw ps e s]
      have "io_log (epoch_body fw ps e s) = io_log s" by simp
      with P le show ?thesis by fastforce
    next
      fix ck tm l a all_prob v
      assume ck: "ck_best_score ck = best_score (epoch_body fw ps e s)"
        and n: "new_io s (epoch_body fw ps e s) =
         (if if_save_model ps
          then [TorchSave (os_path_join (target_dir ps) ''best.pth.tar'') ck] else []) @
         [ToCsv (os_path_join (target_dir ps) ''test_prediction.csv'')
            (to_csv False (prediction_frame all_prob))]"
      from n epoch_body_io_prefix [of fw ps e s]
      have "saved_checkpoints (io_log (epoch_body fw ps e s)) =
              saved_checkpoints (io_log s) @ (if if_save_model ps then [ck] else [])"
        by (simp add: saved_checkpoints_append)
      with P le ck show ?thesis
        by (fastforce simp: sorted_append)
    qed
  qed
  from run_invariant [of fw ps fs w s0 ss ex ?P, OF run P0 step]
  have "?P (last (s0 # ss))" by (metis last_in_set list.distinct(1))
  then show "sorted (map ck_best_score (saved_checkpoints (io_log (last (s0 # ss)))))"
    by (rule conjunct1)
qed

theorem best_score_monotone_witness:
  "model_train_validate_test (scripted_framework demo_probs) demo_params Map.empty demo_world =
     Inr (demo_s0, [demo_s1, demo_s2, demo_s3], Exhausted) \<and>
   best_score demo_s0 \<le> best_score demo_s1 \<and>
   best_score demo_s1 \<le> best_score demo_s2 \<and>
   best_score demo_s2 \<le> best_score demo_s3 \<and>
   sorted (map ck_best_score (saved_checkpoints (io_log demo_s3))) \<and>
   map ck_best_score (saved_checkpoints (io_log demo_s3)) = [1 / 2, 3 / 5]"
proof -
  note m = best_score_monotone [OF demo_run]
  from m have a: "\<forall>i<3. best_score ((demo_s0 # [demo_s1, demo_s2, demo_s3]) ! i)
      \<le> best_score ([demo_s1, demo_s2, demo_s3] ! i)" by simp
  from a have "best_score demo_s0 \<le> best_score demo_s1" by (metis nth_Cons_0 zero_less_numeral)
  moreover from spec [OF a, of 1] have "best_score demo_s1 \<le> best_score demo_s2" by simp
  moreover from spec [OF a, of 2] have "best_score demo_s2 \<le> best_score demo_s3" by simp
  moreover from m have "sorted (map ck_best_score (saved_checkpoints (io_log demo_s3)))"
    by simp
  moreover have "map ck_best_score (saved_checkpoints (io_log demo_s3)) = [1 / 2, 3 / 5]"
    by (simp add: demo_saved demo_checkpoint_def)
  ultimately show ?thesis using demo_run by blast
qed

section \<open>When a checkpoint is written\<close>

text \<open>
  Claim C3 says that a checkpoint is written after exactly the epochs whose validation
  accuracy is at least that of every previous epoch. The write is behind the flag
  \<open>if_save_model\<close>: in the run below the flag is off, the accuracies are 1/2, 2/5, 3/5,
  so the first and the third epoch are at least as good as all before them, and no
  checkpoint is written at all.
\<close>

theorem checkpoint_unwritten_counterexample:
  "model_train_validate_test (scripted_framework demo_probs) nosave_params Map.empty demo_world =
     Inr (demo_s0, [nosave_s1, nosave_s2, nosave_s3], Exhausted) \<and>
   valid_accuracies nosave_s3 = [1 / 2, 2 / 5, 3 / 5] \<and>
   saved_checkpoints (io_log nosave_s3) = []"
  using nosave_run nosave_facts(1,2) by simp

text \<open>
  C3, as the code has it: a checkpoint is written in an epoch exactly when \<open>if_save_model\<close>
  is set and the epoch's validation accuracy is at least the best score the loop started
  with (0 when no checkpoint was given) and at least the validation accuracy of every
  previous epoch of the run; every checkpoint of the run is written in one of its epochs,
  to \<open>best.pth.tar\<close> in the target directory.
\<close>

theorem checkpoint_written_iff:
  assumes run: "model_train_validate_test fw ps fs w = Inr (s0, ss, ex)"
    and i: "i < length ss"
  shows "((\<exists>p ck. TorchSave p ck \<in> set (new_io ((s0 # ss) ! i) (ss ! i))) \<longleftrightarrow>
            if_save_model ps \<and>
            best_score s0 \<le> last (valid_accuracies (ss ! i)) \<and>
            (\<forall>j<i. last (valid_accuracies (ss ! j)) \<le> last (valid_accuracies (ss ! i)))) \<and>
         (checkpoint ps = None \<longrightarrow> best_score s0 = 0) \<and>
         (\<forall>p ck. TorchSave p ck \<in> set (io_log (last (s0 # ss))) \<longrightarrow>
            p = os_path_join (target_dir ps) ''best.pth.tar'' \<and>
            (\<exists>k<length ss. TorchSave p ck \<in> set (new_io ((s0 # ss) ! k) (ss ! k))))"
proof (intro conjI)
  let ?prev = "(s0 # ss) ! i"
  let ?acc = "last (valid_accuracies (ss ! i))"
  have st: "ss ! i = epoch_body fw ps (start_epoch s0 + int i) ?prev"
    by (rule run_step [OF run i])
  from i have "i \<le> length ss" by simp
  from run_best_score_bound [OF run this, of ?acc]
  have bound: "\<not> ?acc < best_score ?prev \<longleftrightarrow>
      best_score s0 \<le> ?acc \<and> (\<forall>j<i. last (valid_accuracies (ss ! j)) \<le> ?acc)"
    by (simp add: not_less)
  from epoch_body_new_io [of fw ps "start_epoch s0 + int i" ?prev]
  have "(\<exists>p ck. TorchSave p ck \<in> set (new_io ?prev (ss ! i))) \<longleftrightarrow>
          if_save_model ps \<and> \<not> ?acc < best_score ?prev"
    unfolding st [symmetric] by (elim disjE conjE exE) auto
  with bound show "(\<exists>p ck. TorchSave p ck \<in> set (new_io ?prev (ss ! i))) \<longleftrightarrow>
            if_save_model ps \<and> best_score s0 \<le> ?acc \<and>
            (\<forall>j<i. last (valid_accuracies (ss ! j)) \<le> ?acc)"
    by simp
next
  show "checkpoint ps = None \<longrightarrow> best_score s0 = 0"
  proof
    assume "checkpoint ps = None"
    with run_unfold [OF run] show "best_score s0 = 0"
      by (auto simp: restore_def fresh_def baseline_fields)
  qed
next
  show "\<forall>p ck. TorchSave p ck \<in> set (io_log (last (s0 # ss))) \<longrightarrow>
            p = os_path_join (target_dir ps) ''best.pth.tar'' \<and>
            (\<exists>k<length ss. TorchSave p ck \<in> set (new_io ((s0 # ss) ! k) (ss ! k)))"
  proof (intro allI impI)
    fix p ck
    assume "TorchSave p ck \<in> set (io_log (last (s0 # ss)))"
    then have "TorchSave p ck \<in> set (io_log ((s0 # ss) ! length ss))"
      by (simp only: last_as_nth)
    from run_saves_within [OF run le_refl this] obtain k where
      k: "k < length ss" and m: "TorchSave p ck \<in> set (new_io ((s0 # ss) ! k) (ss ! k))"
      by blast
    have st: "ss ! k = epoch_body fw ps (start_epoch s0 + int k) ((s0 # ss) ! k)"
      by (rule run_step [OF run k])
    from epoch_body_new_io [of fw ps "start_epoch s0 + int k" "(s0 # ss) ! k"] m
    have "p = os_path_join (target_dir ps) ''best.pth.tar''"
      unfolding st [symmetric] by (elim disjE conjE exE) (auto split: if_splits)
    with k m show "p = os_path_join (target_dir ps) ''best.pth.tar'' \<and>
            (\<exists>k<length ss. TorchSave p ck \<in> set (new_io ((s0 # ss) ! k) (ss ! k)))"
      by blast
  qed
qed

lemma demo_new_io_3:
  "new_io demo_s2 demo_s3 =
     [TorchSave ''out/best.pth.tar''
       \<lparr>ck_epoch = 3, ck_model = 0, ck_optimizer = 0, ck_best_score = 3 / 5,
        ck_epochs_count = [1, 2, 3], ck_train_losses = [1 / 4, 1 / 4, 1 / 4],
        ck_train_accuracy = [1 / 10, 1 / 5, 3 / 10],
        ck_valid_losses = [1 / 8, 1 / 8, 1 / 8],
        ck_valid_accuracy = [1 / 2, 2 / 5, 3 / 5], ck_valid_auc = []\<rparr>,
      ToCsv ''out/test_prediction.csv'' demo_csv]"
  by (simp add: new_io_def demo_state_defs driver_defs demo_csv_def)

theorem checkpoint_written_iff_witness:
  "model_train_validate_test (scripted_framework demo_probs) demo_params Map.empty demo_world =
     Inr (demo_s0, [demo_s1, demo_s2, demo_s3], Exhausted) \<and>
   (1::nat) < length [demo_s1, demo_s2, demo_s3] \<and>
   if_save_model demo_params \<and>
   \<not> (\<exists>p ck. TorchSave p ck \<in> set (new_io demo_s1 demo_s2)) \<and>
   \<not> (best_score demo_s0 \<le> last (valid_accuracies demo_s2) \<and>
      last (valid_accuracies demo_s1) \<le> last (valid_accuracies demo_s2)) \<and>
   (\<exists>p ck. TorchSave p ck \<in> set (new_io demo_s2 demo_s3)) \<and>
   best_score demo_s0 \<le> last (valid_accuracies demo_s3) \<and>
   last (valid_accuracies demo_s1) \<le> last (valid_accuracies demo_s3) \<and>
   last (valid_accuracies demo_s2) \<le> last (valid_accuracies demo_s3)"
proof -
  have l1: "(1::nat) < length [demo_s1, demo_s2, demo_s3]" by simp
  have l2: "(2::nat) < length [demo_s1, demo_s2, demo_s3]" by simp
  have f: "if_save_model demo_params" by (simp add: demo_params_def)
  from checkpoint_written_iff [OF demo_run l1]
  have a: "(\<exists>p ck. TorchSave p ck \<in> set (new_io demo_s1 demo_s2)) \<longleftrightarrow>
      if_save_model demo_params \<and> best_score demo_s0 \<le> last (valid_accuracies demo_s2) \<and>
      (\<forall>j<1. last (valid_accuracies ([demo_s1, demo_s2, demo_s3] ! j))
               \<le> last (valid_accuracies demo_s2))"
    by simp
  from checkpoint_written_iff [OF demo_run l2]
  have b: "(\<exists>p ck. TorchSave p ck \<in> set (new_io demo_s2 demo_s3)) \<longleftrightarrow>
      if_save_model demo_params \<and> best_score demo_s0 \<le> last (valid_accuracies demo_s3) \<and>
      (\<forall>j<2. last (valid_accuracies ([demo_s1, demo_s2, demo_s3] ! j))
               \<le> last (valid_accuracies demo_s3))"
    by simp
  have n2: "\<not> (\<exists>p ck. TorchSave p ck \<in> set (new_io demo_s1 demo_s2))"
    by (simp add: demo_new_io_2)
  have n3: "\<exists>p ck. TorchSave p ck \<in> set (new_io demo_s2 demo_s3)"
    by (simp add: demo_new_io_3)
  from a n2 f have c2: "\<not> (best_score demo_s0 \<le> last (valid_accuracies demo_s2) \<and>
      last (valid_accuracies demo_s1) \<le> last (valid_accuracies demo_s2))"
    by simp
  from b n3 have "best_score demo_s0 \<le> last (valid_accuracies demo_s3) \<and>
      (\<forall>j<2. last (valid_accuracies ([demo_s1, demo_s2, demo_s3] ! j))
               \<le> last (valid_accuracies demo_s3))"
    by simp
  then have c3: "best_score demo_s0 \<le> last (valid_accuracies demo_s3) \<and>
      last (valid_accuracies demo_s1) \<le> last (valid_accuracies demo_s3) \<and>
      last (valid_accuracies demo_s2) \<le> last (valid_accuracies demo_s3)"
    by (simp add: numeral_2_eq_2 less_Suc_eq)
  from demo_run l1 f n2 c2 n3 c3 show ?thesis by blast
qed

section \<open>Early stopping\<close>

text \<open>
  C4: the patience counter starts at 0, grows by one in each epoch whose validation
  accuracy is below the best score seen and is reset to 0 in every other epoch; the loop
  is left by \<open>break\<close> after an epoch exactly when the counter has then reached the
  patience threshold, and after no earlier epoch had it reached it; a loop that ends
  without \<open>break\<close> ran all its epochs; with a threshold of at least 1 the counter equals
  the threshold when the loop breaks.
\<close>

theorem early_stopping:
  assumes run: "model_train_validate_test fw ps fs w = Inr (s0, ss, ex)"
  shows "patience_counter s0 = 0 \<and>
         (\<forall>i<length ss.
            patience_counter (ss ! i) =
              (if last (valid_accuracies (ss ! i)) < best_score ((s0 # ss) ! i)
               then patience_counter ((s0 # ss) ! i) + 1 else 0)) \<and>
         (\<forall>i. Suc i < length ss \<longrightarrow> patience_counter (ss ! i) < patience ps) \<and>
         (ex = Broke \<longleftrightarrow> ss \<noteq> [] \<and> patience ps \<le> patience_counter (last ss)) \<and>
         (ex = Exhausted \<longrightarrow> length ss = length [start_epoch s0..epochs ps]) \<and>
         (1 \<le> patience ps \<and> ex = Broke \<longrightarrow> patience_counter (last ss) = patience ps)"
proof -
  from run_unfold [OF run]
  have l: "epoch_loop fw ps [start_epoch s0..epochs ps] s0 = (ss, ex)" by blast
  have c0: "patience_counter s0 = 0" by (rule run_entry(1) [OF run])
  have upd: "\<forall>i<length ss.
            patience_counter (ss ! i) =
              (if last (valid_accuracies (ss ! i)) < best_score ((s0 # ss) ! i)
               then patience_counter ((s0 # ss) ! i) + 1 else 0)"
  proof (intro allI impI)
    fix i assume i: "i < length ss"
    show "patience_counter (ss ! i) =
              (if last (valid_accuracies (ss ! i)) < best_score ((s0 # ss) ! i)
               then patience_counter ((s0 # ss) ! i) + 1 else 0)"
      using epoch_body_counter [of fw ps "start_epoch s0 + int i" "(s0 # ss) ! i"]
      unfolding run_step [OF run i, symmetric] .
  qed
  have before: "\<forall>i. Suc i < length ss \<longrightarrow> patience_counter (ss ! i) < patience ps"
    using epoch_loop_not_before [OF l] by blast
  note exit = epoch_loop_exit [OF l]
  have broke: "ex = Broke \<longleftrightarrow> ss \<noteq> [] \<and> patience ps \<le> patience_counter (last ss)"
  proof (cases ex)
    case Broke
    with exit show ?thesis by simp
  next
    case Exhausted
    with exit show ?thesis by auto
  qed
  have exh: "ex = Exhausted \<longrightarrow> length ss = length [start_epoch s0..epochs ps]"
    using exit by blast
  have exact: "1 \<le> patience ps \<and> ex = Broke \<longrightarrow> patience_counter (last ss) = patience ps"
  proof
    assume a: "1 \<le> patience ps \<and> ex = Broke"
    with broke have ne: "ss \<noteq> []" and ge: "patience ps \<le> patience_counter (last ss)"
      by simp_all
    define n where "n = length ss - 1"
    from ne have n: "n < length ss" and la: "last ss = ss ! n"
      by (simp_all add: n_def last_conv_nth)
    have prev: "patience_counter ((s0 # ss) ! n) < patience ps"
    proof (cases n)
      case 0
      with c0 a show ?thesis by simp
    next
      case (Suc m)
      with n before have "patience_counter (ss ! m) < patience ps" by simp
      with Suc show ?thesis by simp
    qed
    from upd n have "patience_counter (ss ! n) = patience_counter ((s0 # ss) ! n) + 1 \<or>
        patience_counter (ss ! n) = 0"
      by metis
    with prev ge a la show "patience_counter (last ss) = patience ps" by auto
  qed
  from c0 upd before broke exh exact show ?thesis by blast
qed

theorem early_stopping_witness:
  "model_train_validate_test (scripted_framework demo_probs) stop_params Map.empty stop_world =
     Inr (stop_s0, [stop_s1, stop_s2, stop_s3], Broke) \<and>
   1 \<le> patience stop_params \<and>
   patience_counter stop_s0 = 0 \<and>
   patience_counter stop_s1 < patience stop_params \<and>
   patience_counter stop_s2 < patience stop_params \<and>
   patience_counter stop_s3 = patience stop_params \<and>
   epochs stop_params = 5"
proof -
  note e = early_stopping [OF stop_run]
  have p: "1 \<le> patience stop_params" by (simp add: stop_counters)
  from e have "patience_counter stop_s0 = 0" by blast
  moreover from e have b: "\<forall>i. Suc i < length [stop_s1, stop_s2, stop_s3] \<longrightarrow>
      patience_counter ([stop_s1, stop_s2, stop_s3] ! i) < patience stop_params"
    by blast
  from spec [OF b, of 0] have "patience_counter stop_s1 < patience stop_params" by simp
  moreover from spec [OF b, of 1] have "patience_counter stop_s2 < patience stop_params" by simp
  moreover from e p have "patience_counter stop_s3 = patience stop_params" by simp
  moreover have "epochs stop_params = 5" by (simp add: stop_params_def demo_params_def)
  ultimately show ?thesis using stop_run p by blast
qed

section \<open>Resuming from a checkpoint\<close>

text \<open>
  C5: a checkpoint written in an epoch of a run stores that epoch's number and the best
  score after the epoch; a run started with this checkpoint enters its loop with the same
  best score and with the starting epoch one above the stored epoch.
\<close>

theorem checkpoint_roundtrip:
  assumes run: "model_train_validate_test fw ps fs w = Inr (s0, ss, ex)"
    and i: "i < length ss"
    and saved: "TorchSave p ck \<in> set (new_io ((s0 # ss) ! i) (ss ! i))"
    and stored: "fs' q = Some (CheckpointFile ck)"
    and arg: "checkpoint ps' = Some q" and q: "q \<noteq> []"
  shows "\<exists>s0' ss' ex'.
           model_train_validate_test fw' ps' fs' w' = Inr (s0', ss', ex') \<and>
           best_score s0' = best_score (ss ! i) \<and>
           start_epoch s0' = last (epochs_count (ss ! i)) + 1 \<and>
           ck_best_score ck = best_score (ss ! i) \<and>
           ck_epoch ck = last (epochs_count (ss ! i)) \<and>
           last (epochs_count (ss ! i)) = start_epoch s0 + int i"
proof -
  let ?e = "start_epoch s0 + int i"
  have st: "ss ! i = epoch_body fw ps ?e ((s0 # ss) ! i)"
    by (rule run_step [OF run i])
  from epoch_body_new_io [of fw ps ?e "(s0 # ss) ! i"] saved
  have ck: "ck_epoch ck = ?e \<and> ck_best_score ck = best_score (ss ! i)"
    unfolding st [symmetric] by (elim disjE conjE exE) (auto split: if_splits)
  have ec: "last (epochs_count (ss ! i)) = ?e"
    by (simp add: st epoch_body_misc)
  obtain r where r: "restore fw' ps' fs' (fresh w') = Inr r"
    and rb: "best_score r = ck_best_score ck" and re: "start_epoch r = ck_epoch ck + 1"
    using stored arg q by (simp add: restore_def torch_load_def)
  let ?s0' = "baseline fw' r"
  have "model_train_validate_test fw' ps' fs' w' =
          Inr (?s0', epoch_loop fw' ps' [start_epoch ?s0'..epochs ps'] ?s0')"
    by (simp add: model_train_validate_test_def r Let_def)
  moreover have "best_score ?s0' = best_score (ss ! i)"
    using rb ck by (simp add: baseline_fields)
  moreover have "start_epoch ?s0' = last (epochs_count (ss ! i)) + 1"
    using re ck ec by (simp add: baseline_fields)
  ultimately show ?thesis using ck ec
    by (metis prod.collapse)
qed

theorem checkpoint_roundtrip_witness:
  "model_train_validate_test (scripted_framework demo_probs) demo_params Map.empty demo_world =
     Inr (demo_s0, [demo_s1, demo_s2, demo_s3], Exhausted) \<and>
   (0::nat) < length [demo_s1, demo_s2, demo_s3] \<and>
   TorchSave ''out/best.pth.tar'' demo_checkpoint \<in> set (new_io demo_s0 demo_s1) \<and>
   demo_filesystem ''out/best.pth.tar'' = Some (CheckpointFile demo_checkpoint) \<and>
   checkpoint resume_params = Some ''out/best.pth.tar'' \<and>
   ''out/best.pth.tar'' \<noteq> [] \<and>
   model_train_validate_test (scripted_framework demo_probs) resume_params demo_filesystem
     resume_world = Inr (resume_s0, [resume_s2, resume_s3], Exhausted) \<and>
   best_score resume_s0 = best_score demo_s1 \<and>
   start_epoch resume_s0 = last (epochs_count demo_s1) + 1 \<and>
   start_epoch resume_s0 = 2"
proof -
  have l: "(0::nat) < length [demo_s1, demo_s2, demo_s3]" by simp
  have m: "TorchSave ''out/best.pth.tar'' demo_checkpoint \<in>
      set (new_io ((demo_s0 # [demo_s1, demo_s2, demo_s3]) ! 0) ([demo_s1, demo_s2, demo_s3] ! 0))"
    by (simp add: demo_new_io_1)
  have f: "demo_filesystem ''out/best.pth.tar'' = Some (CheckpointFile demo_checkpoint)"
    by (simp add: demo_filesystem_def)
  have a: "checkpoint resume_params = Some ''out/best.pth.tar''"
    by (simp add: resume_params_def)
  have q: "''out/best.pth.tar'' \<noteq> []" by simp
  from checkpoint_roundtrip [where fs' = demo_filesystem and q = "''out/best.pth.tar''"
      and fw' = "scripted_framework demo_probs" and w' = resume_world, OF demo_run l m f a q]
  have "best_score resume_s0 = best_score demo_s1 \<and>
        start_epoch resume_s0 = last (epochs_count demo_s1) + 1"
    by (simp add: resume_run)
  moreover have "start_epoch resume_s0 = 2" by (rule resume_entry(1))
  ultimately show ?thesis using demo_run l m f a q resume_run by simp
qed

lemma csv_writes_append:
  "csv_writes (xs @ ys) = csv_writes xs @ csv_writes ys"
  by (induction xs) (auto split: io.splits)

lemma epoch_body_flag_csv:
  "csv_writes (io_log (epoch_body fw (ps\<lparr>if_save_model := True\<rparr>) e s)) =
   csv_writes (io_log (epoch_body fw (ps\<lparr>if_save_model := False\<rparr>) e s))"
proof -
  obtain s1 acc where tv: "train_and_validate fw ps e s = (s1, acc)"
    by (cases "train_and_validate fw ps e s")
  have t: "train_and_validate fw (ps\<lparr>if_save_model := b\<rparr>) e s = (s1, acc)" for b
    using tv by (simp add: train_and_validate_def)
  show ?thesis
    by (simp add: epoch_body_def t save_checkpoint_def export_test_prediction_def
          csv_writes_append split: prod.splits)
qed

section \<open>The shape of the prediction file\<close>

lemma per_example_validate:
  assumes "per_example_pass fw test_df"
    and "validate fw TestLoader u = ((tm, l, a, all_prob), u')"
  shows "length all_prob = length test_df"
proof -
  from assms(1)
  have "length (snd (snd (snd (fst (validate fw TestLoader u))))) = length test_df"
    unfolding per_example_pass_def by blast
  then show ?thesis by (simp add: assms(2))
qed

lemma per_example_test:
  assumes "per_example_pass fw test_df"
    and "test fw TestLoader u = ((tm, l, a, all_prob), u')"
  shows "length all_prob = length test_df"
proof -
  from assms(1)
  have "length (snd (snd (snd (fst (test fw TestLoader u))))) = length test_df"
    unfolding per_example_pass_def by blast
  then show ?thesis by (simp add: assms(2))
qed

lemma prediction_table_shape:
  assumes "length all_prob = length test_df"
  shows "header (to_csv False (prediction_frame all_prob)) = [''prob_0'', ''prob_1'', ''prediction''] \<and>
         length (rows (to_csv False (prediction_frame all_prob))) = length test_df \<and>
         (\<forall>i < length test_df. \<exists>prediction.
            rows (to_csv False (prediction_frame all_prob)) ! i =
              [FloatCell (1 - all_prob ! i), FloatCell (all_prob ! i), IntCell prediction])"
  using assms by (simp add: header_prediction_csv rows_prediction_csv)

text \<open>
  C7: every prediction file written has exactly the three columns \<open>prob_0\<close>, \<open>prob_1\<close>,
  \<open>prediction\<close> in this order and no index column, one row per test example, and
  \<open>prob_0 = 1 - prob_1\<close> in every row, where \<open>prob_1\<close> is the list of probabilities that the
  pass over the test set returned. The training driver writes exactly one such file, namely
  \<open>test_prediction.csv\<close> in the target directory, in every epoch whose validation accuracy
  is not below the best score, and every table in the log of a run is such a file at that
  path; \<open>model_load_test\<close> writes exactly one such file, at the given name in the given
  directory. The number of rows is the number of examples of \<open>test_df\<close> because a pass
  over the test set returns one probability per example.
\<close>

theorem prediction_file_shape:
  assumes contract: "per_example_pass fw test_df"
  shows "(model_train_validate_test fw ps fs w = Inr (s0, ss, ex) \<longrightarrow>
            (\<forall>i < length ss.
               \<not> last (valid_accuracies (ss ! i)) < best_score ((s0 # ss) ! i) \<longrightarrow>
               (\<exists>c all_prob tm l a u.
                  csv_writes (new_io ((s0 # ss) ! i) (ss ! i)) =
                    [(os_path_join (target_dir ps) ''test_prediction.csv'', c)] \<and>
                  validate fw TestLoader u = ((tm, l, a, all_prob), world (ss ! i)) \<and>
                  header c = [''prob_0'', ''prob_1'', ''prediction''] \<and>
                  length (rows c) = length test_df \<and>
                  (\<forall>k < length test_df. \<exists>prediction.
                     rows c ! k =
                       [FloatCell (1 - all_prob ! k), FloatCell (all_prob ! k),
                        IntCell prediction]))) \<and>
            (\<forall>p c. ToCsv p c \<in> set (io_log (last (s0 # ss))) \<longrightarrow>
               p = os_path_join (target_dir ps) ''test_prediction.csv'' \<and>
               (\<exists>all_prob tm l a u u'.
                  validate fw TestLoader u = ((tm, l, a, all_prob), u') \<and>
                  header c = [''prob_0'', ''prob_1'', ''prediction''] \<and>
                  length (rows c) = length test_df \<and>
                  (\<forall>k < length test_df. \<exists>prediction.
                     rows c ! k =
                       [FloatCell (1 - all_prob ! k), FloatCell (all_prob ! k),
                        IntCell prediction])))) \<and>
         (model_load_test fw platform fs' tdir test_prediction_dir test_prediction_name v =
            Inr (v', out) \<longrightarrow>
            (\<exists>c ck all_prob tm tt a.
               csv_writes out =
                 [(os_path_join test_prediction_dir test_prediction_name, c)] \<and>
               fs' (os_path_join tdir ''best.pth.tar'') = Some (CheckpointFile ck) \<and>
               test fw TestLoader (model_load_state_dict fw (ck_model ck) v) =
                 ((tm, tt, a, all_prob), v') \<and>
               header c = [''prob_0'', ''prob_1'', ''prediction''] \<and>
               length (rows c) = length test_df \<and>
               (\<forall>k < length test_df. \<exists>prediction.
                  rows c ! k =
                    [FloatCell (1 - all_prob ! k), FloatCell (all_prob ! k),
                     IntCell prediction])))"
proof (intro conjI impI allI)
  fix i
  assume run: "model_train_validate_test fw ps fs w = Inr (s0, ss, ex)"
    and i: "i < length ss"
    and better: "\<not> last (valid_accuracies (ss ! i)) < best_score ((s0 # ss) ! i)"
  have st: "ss ! i = epoch_body fw ps (start_epoch s0 + int i) ((s0 # ss) ! i)"
    by (rule run_step [OF run i])
  from epoch_body_new_io [of fw ps "start_epoch s0 + int i" "(s0 # ss) ! i"] better
  obtain ck tm l a all_prob u where
    v: "validate fw TestLoader u = ((tm, l, a, all_prob), world (ss ! i))" and
    io: "new_io ((s0 # ss) ! i) (ss ! i) =
           (if if_save_model ps
            then [TorchSave (os_path_join (target_dir ps) ''best.pth.tar'') ck] else []) @
           [ToCsv (os_path_join (target_dir ps) ''test_prediction.csv'')
              (to_csv False (prediction_frame all_prob))]"
    unfolding st [symmetric] by blast
  from io have w: "csv_writes (new_io ((s0 # ss) ! i) (ss ! i)) =
      [(os_path_join (target_dir ps) ''test_prediction.csv'',
        to_csv False (prediction_frame all_prob))]"
    by (simp add: csv_writes_append)
  from prediction_table_shape [OF per_example_validate [OF contract v]] w v
  show "\<exists>c all_prob tm l a u.
          csv_writes (new_io ((s0 # ss) ! i) (ss ! i)) =
            [(os_path_join (target_dir ps) ''test_prediction.csv'', c)] \<and>
          validate fw TestLoader u = ((tm, l, a, all_prob), world (ss ! i)) \<and>
          header c = [''prob_0'', ''prob_1'', ''prediction''] \<and>
          length (rows c) = length test_df \<and>
          (\<forall>k < length test_df. \<exists>prediction.
             rows c ! k =
               [FloatCell (1 - all_prob ! k), FloatCell (all_prob ! k), IntCell prediction])"
    by blast
next
  fix p c
  assume run: "model_train_validate_test fw ps fs w = Inr (s0, ss, ex)"
    and m: "ToCsv p c \<in> set (io_log (last (s0 # ss)))"
  from run_csv [OF run m] obtain all_prob u tm l a u' where
    p: "p = os_path_join (target_dir ps) ''test_prediction.csv''" and
    v: "validate fw TestLoader u = ((tm, l, a, all_prob), u')" and
    c: "c = to_csv False (prediction_frame all_prob)"
    by blast
  from p show "p = os_path_join (target_dir ps) ''test_prediction.csv''" .
  from prediction_table_shape [OF per_example_validate [OF contract v]] v
  show "\<exists>all_prob tm l a u u'.
          validate fw TestLoader u = ((tm, l, a, all_prob), u') \<and>
          header c = [''prob_0'', ''prob_1'', ''prediction''] \<and>
          length (rows c) = length test_df \<and>
          (\<forall>k < length test_df. \<exists>prediction.
             rows c ! k =
               [FloatCell (1 - all_prob ! k), FloatCell (all_prob ! k), IntCell prediction])"
    unfolding c by blast
next
  assume run: "model_load_test fw platform fs' tdir test_prediction_dir test_prediction_name v =
      Inr (v', out)"
  from load_test_io [OF run] obtain ck tm tt a all_prob where
    f: "fs' (os_path_join tdir ''best.pth.tar'') = Some (CheckpointFile ck)" and
    t: "test fw TestLoader (model_load_state_dict fw (ck_model ck) v) = ((tm, tt, a, all_prob), v')"
    and o: "out = [TorchLoad (os_path_join tdir ''best.pth.tar'') (map_location platform),
            ToCsv (os_path_join test_prediction_dir test_prediction_name)
              (to_csv False (prediction_frame all_prob))]"
    by (elim exE conjE)
  from o have w: "csv_writes out =
      [(os_path_join test_prediction_dir test_prediction_name,
        to_csv False (prediction_frame all_prob))]"
    by simp
  from prediction_table_shape [OF per_example_test [OF contract t]] w f t
  show "\<exists>c ck all_prob tm tt a.
          csv_writes out = [(os_path_join test_prediction_dir test_prediction_name, c)] \<and>
          fs' (os_path_join tdir ''best.pth.tar'') = Some (CheckpointFile ck) \<and>
          test fw TestLoader (model_load_state_dict fw (ck_model ck) v) =
            ((tm, tt, a, all_prob), v') \<and>
          header c = [''prob_0'', ''prob_1'', ''prediction''] \<and>
          length (rows c) = length test_df \<and>
          (\<forall>k < length test_df. \<exists>prediction.
             rows c ! k =
               [FloatCell (1 - all_prob ! k), FloatCell (all_prob ! k), IntCell prediction])"
    by blast
qed


lemma demo_contract: "per_example_pass (scripted_framework demo_probs) demo_test_df"
  by (simp add: per_example_pass_def scripted_framework_def demo_probs_def demo_test_df_def)

theorem prediction_file_shape_witness:
  "per_example_pass (scripted_framework demo_probs) demo_test_df \<and>
   length demo_test_df = 4 \<and>
   model_train_validate_test (scripted_framework demo_probs) demo_params Map.empty demo_world =
     Inr (demo_s0, [demo_s1, demo_s2, demo_s3], Exhausted) \<and>
   \<not> last (valid_accuracies demo_s1) < best_score demo_s0 \<and>
   new_io demo_s0 demo_s1 =
     [TorchSave ''out/best.pth.tar'' demo_checkpoint,
      ToCsv ''out/test_prediction.csv'' demo_csv] \<and>
   (\<exists>c. csv_writes (new_io demo_s0 demo_s1) =
           [(os_path_join (target_dir demo_params) ''test_prediction.csv'', c)] \<and>
        header c = [''prob_0'', ''prob_1'', ''prediction''] \<and>
        length (rows c) = length demo_test_df) \<and>
   ToCsv ''out/test_prediction.csv'' demo_csv \<in> set (io_log demo_s3) \<and>
   ''out/test_prediction.csv'' = os_path_join (target_dir demo_params) ''test_prediction.csv'' \<and>
   model_load_test (scripted_framework demo_probs) ''linux'' demo_filesystem
      ''out'' ''pred'' ''test.csv'' [] =
     Inr ([], [TorchLoad ''out/best.pth.tar'' None, ToCsv ''pred/test.csv'' demo_csv]) \<and>
   (\<exists>c. csv_writes ([TorchLoad ''out/best.pth.tar'' None,
                        ToCsv ''pred/test.csv'' demo_csv] :: (nat, nat) io list) =
           [(os_path_join ''pred'' ''test.csv'', c)] \<and>
        header c = [''prob_0'', ''prob_1'', ''prediction''] \<and>
        length (rows c) = length demo_test_df) \<and>
   header demo_csv = [''prob_0'', ''prob_1'', ''prediction''] \<and>
   length (rows demo_csv) = 4"
proof -
  note shape = prediction_file_shape [OF demo_contract,
      where ps = demo_params and fs = Map.empty and w = demo_world and ?s0.0 = demo_s0
        and ss = "[demo_s1, demo_s2, demo_s3]" and ex = Exhausted
        and platform = "''linux''" and fs' = demo_filesystem and tdir = "''out''"
        and test_prediction_dir = "''pred''" and test_prediction_name = "''test.csv''"
        and v = "[]" and v' = "[]"
        and out = "[TorchLoad ''out/best.pth.tar'' None, ToCsv ''pred/test.csv'' demo_csv]"]
  have n: "length demo_test_df = 4" by (simp add: demo_test_df_def)
  have b: "\<not> last (valid_accuracies demo_s1) < best_score demo_s0"
    by (simp add: demo_accs demo_best_scores)
  have m: "ToCsv ''out/test_prediction.csv'' demo_csv \<in> set (io_log demo_s3)"
    by (simp add: demo_state_defs driver_defs demo_csv_def)
  note training = shape [THEN conjunct1, THEN mp, OF demo_run]
  note inference = shape [THEN conjunct2, THEN mp, OF demo_load_test]
  from training have "0 < length [demo_s1, demo_s2, demo_s3] \<longrightarrow>
      \<not> last (valid_accuracies ([demo_s1, demo_s2, demo_s3] ! 0))
          < best_score ((demo_s0 # [demo_s1, demo_s2, demo_s3]) ! 0) \<longrightarrow>
      (\<exists>c all_prob tm l a u.
         csv_writes (new_io ((demo_s0 # [demo_s1, demo_s2, demo_s3]) ! 0)
                       ([demo_s1, demo_s2, demo_s3] ! 0)) =
           [(os_path_join (target_dir demo_params) ''test_prediction.csv'', c)] \<and>
         validate (scripted_framework demo_probs) TestLoader u =
           ((tm, l, a, all_prob), world ([demo_s1, demo_s2, demo_s3] ! 0)) \<and>
         header c = [''prob_0'', ''prob_1'', ''prediction''] \<and>
         length (rows c) = length demo_test_df \<and>
         (\<forall>k < length demo_test_df. \<exists>prediction.
            rows c ! k =
              [FloatCell (1 - all_prob ! k), FloatCell (all_prob ! k), IntCell prediction]))"
    by (elim conjE allE)
  with b obtain c where
    "csv_writes (new_io demo_s0 demo_s1) =
       [(os_path_join (target_dir demo_params) ''test_prediction.csv'', c)]"
    "header c = [''prob_0'', ''prob_1'', ''prediction'']"
    "length (rows c) = length demo_test_df"
    by auto
  then have first: "\<exists>c. csv_writes (new_io demo_s0 demo_s1) =
           [(os_path_join (target_dir demo_params) ''test_prediction.csv'', c)] \<and>
        header c = [''prob_0'', ''prob_1'', ''prediction''] \<and>
        length (rows c) = length demo_test_df"
    by blast
  from m have m': "ToCsv ''out/test_prediction.csv'' demo_csv
        \<in> set (io_log (last (demo_s0 # [demo_s1, demo_s2, demo_s3])))"
    by simp
  from training [THEN conjunct2, THEN spec, THEN spec, THEN mp, OF m']
  have final: "''out/test_prediction.csv'' =
        os_path_join (target_dir demo_params) ''test_prediction.csv'' \<and>
      header demo_csv = [''prob_0'', ''prob_1'', ''prediction''] \<and>
      length (rows demo_csv) = length demo_test_df"
    by (elim exE conjE) (intro conjI)
  from inference
  have inf: "\<exists>c. csv_writes ([TorchLoad ''out/best.pth.tar'' None,
                        ToCsv ''pred/test.csv'' demo_csv] :: (nat, nat) io list) =
           [(os_path_join ''pred'' ''test.csv'', c)] \<and>
        header c = [''prob_0'', ''prob_1'', ''prediction''] \<and>
        length (rows c) = length demo_test_df"
    by (elim exE conjE) (intro exI conjI)
  from demo_contract n demo_run b demo_new_io_1 first m final demo_load_test inf
  show ?thesis by simp
qed

section \<open>The export does not depend on \<open>if_save_model\<close>\<close>

text \<open>
  C9: in every epoch whose validation accuracy is not below the best score seen, the
  pass over the test set runs and \<open>test_prediction.csv\<close> is written in the target
  directory, whatever \<open>if_save_model\<close> is; the flag decides only whether the checkpoint
  is written before it, and the tables an iteration writes are the same for both values
  of the flag.
\<close>

theorem export_regardless_of_flag:
  assumes run: "model_train_validate_test fw ps fs w = Inr (s0, ss, ex)"
    and i: "i < length ss"
    and better: "\<not> last (valid_accuracies (ss ! i)) < best_score ((s0 # ss) ! i)"
  shows "(\<exists>ck tm l a all_prob v.
            validate fw TestLoader v = ((tm, l, a, all_prob), world (ss ! i)) \<and>
            new_io ((s0 # ss) ! i) (ss ! i) =
              (if if_save_model ps
               then [TorchSave (os_path_join (target_dir ps) ''best.pth.tar'') ck] else []) @
              [ToCsv (os_path_join (target_dir ps) ''test_prediction.csv'')
                 (to_csv False (prediction_frame all_prob))]) \<and>
         csv_writes (io_log (epoch_body fw (ps\<lparr>if_save_model := True\<rparr>) e s)) =
         csv_writes (io_log (epoch_body fw (ps\<lparr>if_save_model := False\<rparr>) e s))"
proof
  have st: "ss ! i = epoch_body fw ps (start_epoch s0 + int i) ((s0 # ss) ! i)"
    by (rule run_step [OF run i])
  from epoch_body_new_io [of fw ps "start_epoch s0 + int i" "(s0 # ss) ! i"] better
  show "\<exists>ck tm l a all_prob v.
            validate fw TestLoader v = ((tm, l, a, all_prob), world (ss ! i)) \<and>
            new_io ((s0 # ss) ! i) (ss ! i) =
              (if if_save_model ps
               then [TorchSave (os_path_join (target_dir ps) ''best.pth.tar'') ck] else []) @
              [ToCsv (os_path_join (target_dir ps) ''test_prediction.csv'')
                 (to_csv False (prediction_frame all_prob))]"
    unfolding st [symmetric] by blast
next
  show "csv_writes (io_log (epoch_body fw (ps\<lparr>if_save_model := True\<rparr>) e s)) =
        csv_writes (io_log (epoch_body fw (ps\<lparr>if_save_model := False\<rparr>) e s))"
    by (rule epoch_body_flag_csv)
qed

lemma nosave_new_io_3:
  "new_io nosave_s2 nosave_s3 = [ToCsv ''out/test_prediction.csv'' demo_csv]"
  by (simp add: new_io_def demo_state_defs nosave_state_defs driver_defs demo_csv_def)

lemma nosave_better_3:
  "\<not> last (valid_accuracies nosave_s3) < best_score nosave_s2"
  by (simp add: demo_state_defs nosave_state_defs driver_defs)

theorem export_regardless_of_flag_witness:
  "model_train_validate_test (scripted_framework demo_probs) nosave_params Map.empty demo_world =
     Inr (demo_s0, [nosave_s1, nosave_s2, nosave_s3], Exhausted) \<and>
   (2::nat) < length [nosave_s1, nosave_s2, nosave_s3] \<and>
   \<not> last (valid_accuracies nosave_s3) < best_score nosave_s2 \<and>
   \<not> if_save_model nosave_params \<and>
   (\<exists>all_prob. new_io nosave_s2 nosave_s3 =
      [ToCsv (os_path_join (target_dir nosave_params) ''test_prediction.csv'')
         (to_csv False (prediction_frame all_prob))]) \<and>
   new_io nosave_s2 nosave_s3 = [ToCsv ''out/test_prediction.csv'' demo_csv]"
proof -
  have l: "(2::nat) < length [nosave_s1, nosave_s2, nosave_s3]" by simp
  have b: "\<not> last (valid_accuracies ([nosave_s1, nosave_s2, nosave_s3] ! 2))
             < best_score ((demo_s0 # [nosave_s1, nosave_s2, nosave_s3]) ! 2)"
    using nosave_better_3 by simp
  have f: "\<not> if_save_model nosave_params"
    by (simp add: nosave_params_def)
  from export_regardless_of_flag [OF nosave_run l b] f
  have "\<exists>all_prob. new_io nosave_s2 nosave_s3 =
      [ToCsv (os_path_join (target_dir nosave_params) ''test_prediction.csv'')
         (to_csv False (prediction_frame all_prob))]"
    by auto
  with nosave_run l nosave_better_3 f nosave_new_io_3 show ?thesis by blast
qed

section \<open>The AUC history\<close>

text \<open>
  C10: in a run started without a checkpoint the list \<open>valid_aucs\<close> is empty on entry
  to the loop and after every epoch, and the \<open>valid_auc\<close> field of every checkpoint the
  run writes is the empty list.
\<close>

theorem valid_auc_never_filled:
  assumes run: "model_train_validate_test fw ps fs w = Inr (s0, ss, ex)"
    and fresh_start: "checkpoint ps = None"
  shows "valid_aucs s0 = [] \<and> (\<forall>s \<in> set ss. valid_aucs s = []) \<and>
         (\<forall>p ck. TorchSave p ck \<in> set (io_log (last (s0 # ss))) \<longrightarrow> ck_valid_auc ck = [])"
proof -
  let ?P = "\<lambda>s. valid_aucs s = [] \<and>
                 (\<forall>p ck. TorchSave p ck \<in> set (io_log s) \<longrightarrow> ck_valid_auc ck = [])"
  have P0: "?P s0" using run_entry(3,5) [OF run] by simp
  have step: "?P (epoch_body fw ps e s)" if P: "?P s" for e s
  proof
    from P show "valid_aucs (epoch_body fw ps e s) = []" by (simp add: epoch_body_misc)
  next
    show "\<forall>p ck. TorchSave p ck \<in> set (io_log (epoch_body fw ps e s)) \<longrightarrow> ck_valid_auc ck = []"
    proof (intro allI impI)
      fix p ck
      assume "TorchSave p ck \<in> set (io_log (epoch_body fw ps e s))"
      with epoch_body_io_prefix [of fw ps e s]
      have "TorchSave p ck \<in> set (io_log s) \<or>
            TorchSave p ck \<in> set (new_io s (epoch_body fw ps e s))"
        by (metis Un_iff set_append)
      then show "ck_valid_auc ck = []"
      proof
        assume "TorchSave p ck \<in> set (io_log s)"
        with P show ?thesis by blast
      next
        assume m: "TorchSave p ck \<in> set (new_io s (epoch_body fw ps e s))"
        from epoch_body_new_io [of fw ps e s] m
        have "ck_valid_auc ck = valid_aucs s"
          by (elim disjE conjE exE) (auto split: if_splits)
        with P show ?thesis by simp
      qed
    qed
  qed
  from run_invariant [of fw ps fs w s0 ss ex ?P, OF run P0 step]
  have all: "\<forall>s \<in> set (s0 # ss). ?P s" .
  then have "?P s0" and "\<forall>s \<in> set ss. valid_aucs s = []" by simp_all
  moreover from all have "?P (last (s0 # ss))" by (metis last_in_set list.distinct(1))
  ultimately show ?thesis by blast
qed

theorem valid_auc_never_filled_witness:
  "model_train_validate_test (scripted_framework demo_probs) demo_params Map.empty demo_world =
     Inr (demo_s0, [demo_s1, demo_s2, demo_s3], Exhausted) \<and>
   checkpoint demo_params = None \<and>
   valid_aucs demo_s0 = [] \<and> valid_aucs demo_s3 = [] \<and>
   TorchSave ''out/best.pth.tar'' demo_checkpoint \<in> set (io_log demo_s3) \<and>
   ck_valid_auc demo_checkpoint = []"
proof -
  have c: "checkpoint demo_params = None" by (simp add: demo_params_def)
  have m: "TorchSave ''out/best.pth.tar'' demo_checkpoint \<in> set (io_log demo_s3)"
    by (simp add: demo_state_defs driver_defs demo_checkpoint_def)
  note v = valid_auc_never_filled [OF demo_run c]
  from v have "valid_aucs demo_s0 = []" by blast
  moreover from v have "valid_aucs demo_s3 = []" by simp
  moreover from v m have "ck_valid_auc demo_checkpoint = []" by simp
  ultimately show ?thesis using demo_run c m by blast
qed

section \<open>Histories after a resume\<close>

text \<open>
  C6 says that a resumed run restores all history lists, so that later epochs append to
  the saved histories. Lines 111, 113 and 114 bind the saved accuracy histories to the
  names \<open>train_accuracy\<close>, \<open>valid_accuracy\<close> and \<open>valid_auc\<close>, while the loop appends to
  \<open>train_accuracies\<close>, \<open>valid_accuracies\<close> and \<open>valid_aucs\<close>. Resumed from the
  checkpoint of epoch 1, the run enters the loop with the epoch counts and the losses of
  the checkpoint but with empty accuracy histories, and the checkpoint it writes after
  epoch 2 holds the accuracies of epoch 2 only.
\<close>

theorem resume_loses_accuracy_histories:
  "demo_filesystem ''out/best.pth.tar'' = Some (CheckpointFile demo_checkpoint) \<and>
   ck_epochs_count demo_checkpoint = [1] \<and>
   ck_train_accuracy demo_checkpoint = [1 / 10] \<and>
   ck_valid_accuracy demo_checkpoint = [1 / 2] \<and>
   model_train_validate_test (scripted_framework demo_probs) resume_params demo_filesystem
     resume_world = Inr (resume_s0, [resume_s2, resume_s3], Exhausted) \<and>
   epochs_count resume_s0 = [1] \<and>
   train_accuracies resume_s0 = [] \<and>
   valid_accuracies resume_s0 = [] \<and>
   epochs_count resume_s2 = [1, 2] \<and>
   train_accuracies resume_s2 = [1 / 5] \<and>
   valid_accuracies resume_s2 = [3 / 5] \<and>
   map ck_train_accuracy (saved_checkpoints (io_log resume_s2)) = [[1 / 5]] \<and>
   map ck_valid_accuracy (saved_checkpoints (io_log resume_s2)) = [[3 / 5]]"
  using resume_run resume_entry resume_after
  by (simp add: resume_saved demo_filesystem_def demo_checkpoint_def)

end
